theory Spec2Isabelle
  imports Main "HOL-Library.Sublist"
begin

section \<open>Parsed template values\<close>

text \<open>
  The rules of \<^verbatim>\<open>shared/lint/rules/custom_rules.py\<close> walk a CloudFormation template that
  the host linter has parsed from YAML or JSON. A parsed value is a null, a boolean, an
  integer, a string, a sequence or a mapping with string keys. A mapping is an association
  list in insertion order; a Python dict never holds a key twice, and a lookup reads the
  first binding of a key. Strings are byte strings in UTF-8. Floating-point scalars are not
  modelled.
\<close>

datatype pyval =
    PNone
  | PBool bool
  | PInt int
  | PStr string
  | PList "pyval list"
  | PDict "(string \<times> pyval) list"

text \<open>The exceptions the rules can raise on a value of the wrong shape.\<close>

datatype py_error = AttributeError | KeyError | TypeError | IndexError

fun bind_err :: "py_error + 'a \<Rightarrow> ('a \<Rightarrow> py_error + 'b) \<Rightarrow> py_error + 'b" where
  "bind_err (Inl e) f = Inl e"
| "bind_err (Inr v) f = f v"

text \<open>A \<^verbatim>\<open>for\<close> loop over a list whose body updates an accumulator or raises.\<close>

fun for_each :: "('a \<Rightarrow> 's \<Rightarrow> py_error + 's) \<Rightarrow> 'a list \<Rightarrow> 's \<Rightarrow> py_error + 's" where
  "for_each body [] s = Inr s"
| "for_each body (x # xs) s =
     (case body x s of Inl e \<Rightarrow> Inl e | Inr s' \<Rightarrow> for_each body xs s')"

subsection \<open>Python operations on parsed values\<close>

text \<open>\<^verbatim>\<open>x.get(k, default)\<close>: only a mapping has the method.\<close>

fun py_get :: "pyval \<Rightarrow> string \<Rightarrow> pyval \<Rightarrow> py_error + pyval" where
  "py_get (PDict d) k dflt = Inr (case map_of d k of Some v \<Rightarrow> v | None \<Rightarrow> dflt)"
| "py_get _ k dflt = Inl AttributeError"

text \<open>\<^verbatim>\<open>x[k]\<close> for a string \<open>k\<close>.\<close>

fun py_getitem :: "pyval \<Rightarrow> string \<Rightarrow> py_error + pyval" where
  "py_getitem (PDict d) k = (case map_of d k of Some v \<Rightarrow> Inr v | None \<Rightarrow> Inl KeyError)"
| "py_getitem _ k = Inl TypeError"

text \<open>
  The code points of a string in UTF-8: a leading byte with the continuation bytes
  (\<open>0x80\<close> to \<open>0xBF\<close>) that follow it.
\<close>

definition is_continuation :: "char \<Rightarrow> bool" where
  "is_continuation c = (128 \<le> (of_char c :: nat) \<and> (of_char c :: nat) < 192)"

function py_chars :: "string \<Rightarrow> string list" where
  "py_chars [] = []"
| "py_chars (c # cs) =
     (c # takeWhile is_continuation cs) # py_chars (dropWhile is_continuation cs)"
  by pat_completeness auto
termination
  by (relation "measure length") (auto simp: length_dropWhile_le less_Suc_eq_le)

text \<open>\<^verbatim>\<open>x[0]\<close>. A mapping has string keys only, so the key \<open>0\<close> is never found.\<close>

fun py_getitem0 :: "pyval \<Rightarrow> py_error + pyval" where
  "py_getitem0 (PList xs) = (case xs of [] \<Rightarrow> Inl IndexError | x # _ \<Rightarrow> Inr x)"
| "py_getitem0 (PStr s) = (case py_chars s of [] \<Rightarrow> Inl IndexError | c # _ \<Rightarrow> Inr (PStr c))"
| "py_getitem0 (PDict d) = Inl KeyError"
| "py_getitem0 _ = Inl TypeError"

text \<open>Substring test, as \<^verbatim>\<open>k in s\<close> on two strings.\<close>

fun is_substring :: "string \<Rightarrow> string \<Rightarrow> bool" where
  "is_substring k [] = (k = [])"
| "is_substring k (c # cs) = (prefix k (c # cs) \<or> is_substring k cs)"

text \<open>\<^verbatim>\<open>k in x\<close> for a string \<open>k\<close>.\<close>

fun py_contains :: "string \<Rightarrow> pyval \<Rightarrow> py_error + bool" where
  "py_contains k (PDict d) = Inr (k \<in> fst ` set d)"
| "py_contains k (PList xs) = Inr (PStr k \<in> set xs)"
| "py_contains k (PStr s) = Inr (is_substring k s)"
| "py_contains k _ = Inl TypeError"

text \<open>
  \<^verbatim>\<open>x in d.keys()\<close> on a mapping with string keys: the value is hashed first, which a
  sequence or a mapping refuses.
\<close>

fun py_in_keys :: "pyval \<Rightarrow> string list \<Rightarrow> py_error + bool" where
  "py_in_keys (PStr s) ks = Inr (s \<in> set ks)"
| "py_in_keys (PList xs) ks = Inl TypeError"
| "py_in_keys (PDict d) ks = Inl TypeError"
| "py_in_keys _ ks = Inr False"

text \<open>The elements a \<^verbatim>\<open>for\<close> loop over a value visits.\<close>

fun py_iter :: "pyval \<Rightarrow> py_error + pyval list" where
  "py_iter (PList xs) = Inr xs"
| "py_iter (PDict d) = Inr (map (\<lambda>kv. PStr (fst kv)) d)"
| "py_iter (PStr s) = Inr (map PStr (py_chars s))"
| "py_iter _ = Inl TypeError"

subsection \<open>Formatting a value\<close>

text \<open>
  \<^verbatim>\<open>"{}".format(x)\<close> is \<^verbatim>\<open>str(x)\<close>; inside a sequence or a mapping the elements are shown
  by \<^verbatim>\<open>repr\<close>. Bytes from \<open>0x80\<close> on are copied as they are.
\<close>

fun digits :: "nat \<Rightarrow> string" where
  "digits n =
     (if n < 10 then [char_of (48 + n)] else digits (n div 10) @ [char_of (48 + n mod 10)])"

definition str_int :: "int \<Rightarrow> string" where
  "str_int i = (if i < 0 then CHR ''-'' # digits (nat (- i)) else digits (nat i))"

definition hex_digit :: "nat \<Rightarrow> char" where
  "hex_digit n = (if n < 10 then char_of (48 + n) else char_of (87 + n))"

definition repr_quote :: "string \<Rightarrow> char" where
  "repr_quote s = (if CHR 0x27 \<in> set s \<and> CHR 0x22 \<notin> set s then CHR 0x22 else CHR 0x27)"

definition repr_char :: "char \<Rightarrow> char \<Rightarrow> string" where
  "repr_char q c =
     (if c = q \<or> c = CHR 0x5C then [CHR 0x5C, c]
      else if c = CHR 0x09 then [CHR 0x5C, CHR ''t'']
      else if c = CHR 0x0A then [CHR 0x5C, CHR ''n'']
      else if c = CHR 0x0D then [CHR 0x5C, CHR ''r'']
      else if (of_char c :: nat) < 32 \<or> (of_char c :: nat) = 127
        then [CHR 0x5C, CHR ''x'', hex_digit (of_char c div 16), hex_digit (of_char c mod 16)]
      else [c])"

definition repr_str :: "string \<Rightarrow> string" where
  "repr_str s = (let q = repr_quote s in [q] @ concat (map (repr_char q) s) @ [q])"

fun join :: "string \<Rightarrow> string list \<Rightarrow> string" where
  "join sep [] = []"
| "join sep [x] = x"
| "join sep (x # y # ys) = x @ sep @ join sep (y # ys)"

fun py_repr :: "pyval \<Rightarrow> string" where
  "py_repr PNone = ''None''"
| "py_repr (PBool b) = (if b then ''True'' else ''False'')"
| "py_repr (PInt i) = str_int i"
| "py_repr (PStr s) = repr_str s"
| "py_repr (PList xs) = ''['' @ join '', '' (map py_repr xs) @ '']''"
| "py_repr (PDict d) =
     ''{'' @ join '', '' (map (\<lambda>(k, v). repr_str k @ '': '' @ py_repr v) d) @ ''}''"

definition py_str :: "pyval \<Rightarrow> string" where
  "py_str x = (case x of PStr s \<Rightarrow> s | _ \<Rightarrow> py_repr x)"

section \<open>The host linter's interface\<close>

text \<open>
  Modelled from the spec: \<^verbatim>\<open>RuleMatch\<close> is a class of the host linter (\<^verbatim>\<open>cfnlint.rules\<close>),
  which is not part of this repository. A violation record is a path into the template
  and a message string.
\<close>

datatype rulematch = RuleMatch (path: "string list") (message: string)

text \<open>
  Modelled from the spec: the template object belongs to the host linter. It is a mapping
  from section name to nested mappings; the rules read its Parameters and Resources
  sections, each a mapping in template order.
\<close>

record template =
  Parameters :: "(string \<times> pyval) list"
  Resources :: "(string \<times> pyval) list"

text \<open>
  Modelled from the spec: \<^verbatim>\<open>cfn.get_parameters()\<close>, a method of the host linter's template,
  gives the Parameters mapping.
\<close>

definition get_parameters :: "template \<Rightarrow> (string \<times> pyval) list" where
  "get_parameters cfn = Parameters cfn"

text \<open>
  Modelled from the spec: \<^verbatim>\<open>cfn.get_resources(types)\<close>, a method of the host linter's
  template, gives the resources that are mappings whose \<^verbatim>\<open>Type\<close> is one of the given type
  names, in template order. A single type name stands for the list that holds it.
\<close>

definition has_type :: "string list \<Rightarrow> pyval \<Rightarrow> bool" where
  "has_type types v =
     (case v of
        PDict d \<Rightarrow> (case map_of d ''Type'' of Some (PStr t) \<Rightarrow> t \<in> set types | _ \<Rightarrow> False)
      | _ \<Rightarrow> False)"

definition get_resources :: "template \<Rightarrow> string list \<Rightarrow> (string \<times> pyval) list" where
  "get_resources cfn types = filter (\<lambda>kv. has_type types (snd kv)) (Resources cfn)"

section \<open>MandatoryParametersRule\<close>

text \<open>
  The required names are a list object held by the class and shared by every invocation,
  so the rule runs on a store of list objects: \<open>cells\<close> gives the content of each
  address and \<open>fresh\<close> is the next free address.
\<close>

record heap =
  cells :: "nat \<Rightarrow> string list"
  fresh :: nat

text \<open>\<^verbatim>\<open>copy.deepcopy\<close> of a list of strings: a new object with the same content.\<close>

definition deepcopy :: "heap \<Rightarrow> nat \<Rightarrow> heap \<times> nat" where
  "deepcopy h a = (h\<lparr>cells := (cells h)(fresh h := cells h a), fresh := Suc (fresh h)\<rparr>, fresh h)"

text \<open>\<^verbatim>\<open>xs.remove(x)\<close> on the list object at an address, for an \<open>x\<close> the list holds.\<close>

definition list_remove :: "heap \<Rightarrow> nat \<Rightarrow> string \<Rightarrow> heap" where
  "list_remove h a x = h\<lparr>cells := (cells h)(a := remove1 x (cells h a))\<rparr>"

definition MandatoryParametersRule_message :: "string \<Rightarrow> string" where
  "MandatoryParametersRule_message param =
     ''Missing parameter '' @ [CHR 0x27] @ param @ [CHR 0x27]"

text \<open>The store in which the class is loaded: address \<open>0\<close> holds \<^verbatim>\<open>_mandatory_parameters\<close>.\<close>

definition MandatoryParametersRule_mandatory_parameters :: nat where
  "MandatoryParametersRule_mandatory_parameters = 0"

definition initial_heap :: heap where
  "initial_heap = \<lparr>cells = (\<lambda>_. [])(0 := [''Environment'']), fresh = 1\<rparr>"

definition mandatory_step :: "nat \<Rightarrow> string \<Rightarrow> heap \<Rightarrow> heap" where
  "mandatory_step mandatory_parameters key h =
     (if key \<in> set (cells h mandatory_parameters)
      then list_remove h mandatory_parameters key else h)"

definition MandatoryParametersRule_match :: "template \<Rightarrow> heap \<Rightarrow> rulematch list \<times> heap" where
  "MandatoryParametersRule_match cfn h =
     (let (h1, mandatory_parameters) = deepcopy h MandatoryParametersRule_mandatory_parameters;
          h2 = fold (mandatory_step mandatory_parameters) (map fst (get_parameters cfn)) h1
      in (map (\<lambda>param. RuleMatch [''Parameters''] (MandatoryParametersRule_message param))
            (cells h2 mandatory_parameters), h2))"

section \<open>Python38Rule\<close>

definition Python38Rule_runtime :: string where
  "Python38Rule_runtime = ''python3.8''"

definition Python38Rule_message :: "pyval \<Rightarrow> pyval \<Rightarrow> string" where
  "Python38Rule_message a b =
     ''Function is using '' @ py_str a @ '' runtime instead of '' @ py_str b"

text \<open>The expression \<^verbatim>\<open>value.get("Properties").get("Runtime")\<close>.\<close>

definition function_runtime :: "pyval \<Rightarrow> py_error + pyval" where
  "function_runtime v =
     bind_err (py_get v ''Properties'' PNone) (\<lambda>props. py_get props ''Runtime'' PNone)"

definition python38_body :: "string \<times> pyval \<Rightarrow> rulematch list \<Rightarrow> py_error + rulematch list" where
  "python38_body kv matches =
     (case kv of (key, value) \<Rightarrow>
        bind_err (function_runtime value) (\<lambda>runtime.
          if runtime \<noteq> PStr Python38Rule_runtime
          then bind_err (function_runtime value) (\<lambda>shown.
                 Inr (matches @ [RuleMatch [''Resources'', key]
                        (Python38Rule_message shown (PStr Python38Rule_runtime))]))
          else Inr matches))"

definition Python38Rule_match :: "template \<Rightarrow> py_error + rulematch list" where
  "Python38Rule_match cfn =
     for_each python38_body (get_resources cfn [''AWS::Lambda::Function'']) []"

section \<open>LambdaLogGroupRule\<close>

text \<open>
  The pattern \<^verbatim>\<open>\${(?P<func>[^}]+)}\<close>. At a given position it matches a dollar sign and an
  opening brace, then the longest run of characters other than a closing brace, which must
  not be empty and must be followed by a closing brace; a shorter run is followed by a
  character of the run, so backtracking finds nothing more. \<^verbatim>\<open>re.search\<close> takes the
  leftmost position with a match. The three characters of the pattern are ASCII, so
  matching bytes and matching code points agree.
\<close>

definition not_brace :: "char \<Rightarrow> bool" where
  "not_brace c = (c \<noteq> CHR ''}'')"

fun re_match_here :: "string \<Rightarrow> string option" where
  "re_match_here (c1 # c2 # rest) =
     (if c1 = CHR ''$'' \<and> c2 = CHR ''{''
           \<and> takeWhile not_brace rest \<noteq> [] \<and> dropWhile not_brace rest \<noteq> []
      then Some (takeWhile not_brace rest) else None)"
| "re_match_here _ = None"

fun re_search :: "string \<Rightarrow> string option" where
  "re_search [] = None"
| "re_search (c # cs) =
     (case re_match_here (c # cs) of Some func \<Rightarrow> Some func | None \<Rightarrow> re_search cs)"

text \<open>\<^verbatim>\<open>re.search\<close> accepts a string only.\<close>

fun py_re_search :: "pyval \<Rightarrow> py_error + string option" where
  "py_re_search (PStr s) = Inr (re_search s)"
| "py_re_search _ = Inl TypeError"

fun isinstance_dict :: "pyval \<Rightarrow> bool" where
  "isinstance_dict (PDict d) = True"
| "isinstance_dict _ = False"

definition LambdaLogGroupRule_message :: "string \<Rightarrow> string" where
  "LambdaLogGroupRule_message function =
     ''Function '' @ function @ '' does not have a corresponding log group''"

definition log_group_body :: "pyval \<Rightarrow> string list \<Rightarrow> py_error + string list" where
  "log_group_body resource known =
     bind_err (py_get resource ''Properties'' PNone) (\<lambda>props.
     bind_err (py_contains ''LogGroupName'' props) (\<lambda>named.
       if \<not> named then Inr known
       else
         bind_err (py_get resource ''Properties'' PNone) (\<lambda>props.
         bind_err (py_get props ''LogGroupName'' PNone) (\<lambda>log_group_name.
           if \<not> isinstance_dict log_group_name then Inr known
           else
             bind_err (py_contains ''Fn::Sub'' log_group_name) (\<lambda>has_sub.
               if \<not> has_sub then Inr known
               else
                 bind_err (py_getitem log_group_name ''Fn::Sub'') (\<lambda>sub.
                 bind_err (py_re_search sub) (\<lambda>m.
                   case m of None \<Rightarrow> Inr known | Some func \<Rightarrow> Inr (known @ [func]))))))))"

definition function_body :: "string list \<Rightarrow> string \<Rightarrow> rulematch list \<Rightarrow> py_error + rulematch list" where
  "function_body known function matches =
     (if function \<notin> set known
      then Inr (matches @ [RuleMatch [''Resources'', function] (LambdaLogGroupRule_message function)])
      else Inr matches)"

definition LambdaLogGroupRule_match :: "template \<Rightarrow> py_error + rulematch list" where
  "LambdaLogGroupRule_match cfn =
     (let functions = get_resources cfn [''AWS::Lambda::Function''];
          log_groups = get_resources cfn [''AWS::Logs::LogGroup'']
      in bind_err (for_each log_group_body (map snd log_groups) []) (\<lambda>known.
           for_each (function_body known) (map fst functions) []))"

section \<open>LambdaESMDestinationConfig\<close>

text \<open>
  The expression
  \<^verbatim>\<open>resource.get("Properties", {}).get("DestinationConfig", {}).get("OnFailure", None)\<close>,
  which this rule and the next one both evaluate.
\<close>

definition on_failure :: "pyval \<Rightarrow> py_error + pyval" where
  "on_failure resource =
     bind_err (py_get resource ''Properties'' (PDict [])) (\<lambda>props.
     bind_err (py_get props ''DestinationConfig'' (PDict [])) (\<lambda>config.
       py_get config ''OnFailure'' PNone))"

definition LambdaESMDestinationConfig_message :: "string \<Rightarrow> string" where
  "LambdaESMDestinationConfig_message key =
     ''Event Source Mapping '' @ key
       @ '' does not have a DestinationConfig with OnFailure destination''"

definition esm_body :: "string \<times> pyval \<Rightarrow> rulematch list \<Rightarrow> py_error + rulematch list" where
  "esm_body kv matches =
     (case kv of (key, resource) \<Rightarrow>
        bind_err (on_failure resource) (\<lambda>destination.
          if destination = PNone
          then Inr (matches @ [RuleMatch [''Resources'', key]
                                 (LambdaESMDestinationConfig_message key)])
          else Inr matches))"

definition LambdaESMDestinationConfig_match :: "template \<Rightarrow> py_error + rulematch list" where
  "LambdaESMDestinationConfig_match cfn =
     (let sources = get_resources cfn [''AWS::Lambda::EventSourceMapping'']
      in for_each esm_body sources [])"

section \<open>LambdaRuleInvokeConfig\<close>

definition LambdaRuleInvokeConfig_message :: "string \<Rightarrow> string" where
  "LambdaRuleInvokeConfig_message key =
     ''Rule '' @ key
       @ '' does not have a corresponding Event Invoke Config with OnFailure destination''"

text \<open>The expression \<^verbatim>\<open>resource["Properties"]["FunctionName"]["Ref"]\<close>.\<close>

definition function_name_ref :: "pyval \<Rightarrow> py_error + pyval" where
  "function_name_ref resource =
     bind_err (py_getitem resource ''Properties'') (\<lambda>props.
     bind_err (py_getitem props ''FunctionName'') (\<lambda>name.
       py_getitem name ''Ref''))"

definition invoke_config_body :: "pyval \<Rightarrow> pyval list \<Rightarrow> py_error + pyval list" where
  "invoke_config_body resource invoke_config_functions =
     bind_err (on_failure resource) (\<lambda>destination.
       if destination = PNone then Inr invoke_config_functions
       else bind_err (function_name_ref resource) (\<lambda>ref.
              Inr (invoke_config_functions @ [ref])))"

text \<open>The expression \<^verbatim>\<open>target.get("Arn", {}).get("Fn::GetAtt", None)\<close>.\<close>

definition target_get_att :: "pyval \<Rightarrow> py_error + pyval" where
  "target_get_att target =
     bind_err (py_get target ''Arn'' (PDict [])) (\<lambda>arn. py_get arn ''Fn::GetAtt'' PNone)"

text \<open>The expression \<^verbatim>\<open>target["Arn"]["Fn::GetAtt"][0]\<close>.\<close>

definition target_function :: "pyval \<Rightarrow> py_error + pyval" where
  "target_function target =
     bind_err (py_getitem target ''Arn'') (\<lambda>arn.
     bind_err (py_getitem arn ''Fn::GetAtt'') py_getitem0)"

text \<open>
  The body of the loop over the targets of one rule. The last test compares a value that
  is a key of the function resources, hence a string, with the collected references; a
  string equals a string of the same content and nothing else.
\<close>

definition target_body ::
  "string \<Rightarrow> string list \<Rightarrow> pyval list \<Rightarrow> pyval \<Rightarrow> rulematch list \<Rightarrow> py_error + rulematch list" where
  "target_body key function_names invoke_config_functions target matches =
     bind_err (target_get_att target) (\<lambda>att.
       if att = PNone then Inr matches
       else
         bind_err (target_function target) (\<lambda>first.
         bind_err (py_in_keys first function_names) (\<lambda>declared.
           if \<not> declared then Inr matches
           else
             bind_err (target_function target) (\<lambda>function_name.
               if function_name \<notin> set invoke_config_functions
               then Inr (matches @ [RuleMatch [''Resources'', key]
                                      (LambdaRuleInvokeConfig_message key)])
               else Inr matches))))"

text \<open>The targets visited by \<^verbatim>\<open>for target in resource.get("Properties", {}).get("Targets", [])\<close>.\<close>

definition rule_targets :: "pyval \<Rightarrow> py_error + pyval list" where
  "rule_targets resource =
     bind_err (py_get resource ''Properties'' (PDict [])) (\<lambda>props.
     bind_err (py_get props ''Targets'' (PList [])) py_iter)"

definition rule_body ::
  "string list \<Rightarrow> pyval list \<Rightarrow> string \<times> pyval \<Rightarrow> rulematch list \<Rightarrow> py_error + rulematch list" where
  "rule_body function_names invoke_config_functions kv matches =
     (case kv of (key, resource) \<Rightarrow>
        bind_err (rule_targets resource) (\<lambda>targets.
          for_each (target_body key function_names invoke_config_functions) targets matches))"

definition LambdaRuleInvokeConfig_match :: "template \<Rightarrow> py_error + rulematch list" where
  "LambdaRuleInvokeConfig_match cfn =
     (let function_names = map fst (get_resources cfn [''AWS::Lambda::Function'']);
          rules = get_resources cfn [''AWS::Events::Rule''];
          invoke_configs = get_resources cfn [''AWS::Lambda::EventInvokeConfig'']
      in bind_err (for_each invoke_config_body (map snd invoke_configs) [])
           (\<lambda>invoke_config_functions.
              for_each (rule_body function_names invoke_config_functions) rules []))"

section \<open>Example templates\<close>

text \<open>
  A template with two functions, a log group for one of them, two event source mappings,
  two event rules and an invoke configuration; it declares no parameter. The other
  templates each differ from it in the one resource their name describes.
\<close>

definition old_function :: pyval where
  "old_function =
     PDict [(''Type'', PStr ''AWS::Lambda::Function''),
            (''Properties'', PDict [(''Runtime'', PStr ''python2.7'')])]"

definition new_function :: pyval where
  "new_function =
     PDict [(''Type'', PStr ''AWS::Lambda::Function''),
            (''Properties'', PDict [(''Runtime'', PStr ''python3.8'')])]"

definition bare_function :: pyval where
  "bare_function =
     PDict [(''Type'', PStr ''AWS::Lambda::Function''),
            (''Properties'', PDict [(''Handler'', PStr ''main.handler'')])]"

definition old_logs :: pyval where
  "old_logs =
     PDict [(''Type'', PStr ''AWS::Logs::LogGroup''),
            (''Properties'',
               PDict [(''LogGroupName'', PDict [(''Fn::Sub'', PStr ''/aws/lambda/${Old}'')])])]"

definition queue_source :: pyval where
  "queue_source =
     PDict [(''Type'', PStr ''AWS::Lambda::EventSourceMapping''),
            (''Properties'', PDict [(''FunctionName'', PDict [(''Ref'', PStr ''Old'')])])]"

definition on_failure_config :: pyval where
  "on_failure_config =
     PDict [(''OnFailure'', PDict [(''Destination'', PStr ''arn:aws:sqs:eu-west-1:1:dead'')])]"

definition stream_source :: pyval where
  "stream_source =
     PDict [(''Type'', PStr ''AWS::Lambda::EventSourceMapping''),
            (''Properties'', PDict [(''DestinationConfig'', on_failure_config)])]"

definition rule_for :: "string \<Rightarrow> pyval" where
  "rule_for function =
     PDict [(''Type'', PStr ''AWS::Events::Rule''),
            (''Properties'',
               PDict [(''Targets'',
                  PList [PDict [(''Arn'', PDict [(''Fn::GetAtt'', PList [PStr function, PStr ''Arn''])]),
                                (''Id'', PStr ''target'')]])])]"

definition old_invoke_config :: pyval where
  "old_invoke_config =
     PDict [(''Type'', PStr ''AWS::Lambda::EventInvokeConfig''),
            (''Properties'',
               PDict [(''FunctionName'', PDict [(''Ref'', PStr ''Old'')]),
                      (''DestinationConfig'', on_failure_config)])]"

definition sample :: template where
  "sample =
     \<lparr>Parameters = [],
      Resources =
        [(''Old'', old_function), (''New'', new_function), (''OldLogs'', old_logs),
         (''Queue'', queue_source), (''Stream'', stream_source),
         (''Schedule'', rule_for ''New''), (''Alarm'', rule_for ''Old''),
         (''OldInvoke'', old_invoke_config)]\<rparr>"

text \<open>Templates with a resource whose Properties is not a mapping.\<close>

definition function_properties_list :: template where
  "function_properties_list =
     \<lparr>Parameters = [],
      Resources =
        [(''Old'', old_function),
         (''Odd'', PDict [(''Type'', PStr ''AWS::Lambda::Function''), (''Properties'', PList [])])]\<rparr>"

definition function_properties_string :: template where
  "function_properties_string =
     \<lparr>Parameters = [],
      Resources =
        [(''Bare'', bare_function),
         (''Odd'', PDict [(''Type'', PStr ''AWS::Lambda::Function''),
                         (''Properties'', PStr ''python3.8'')])]\<rparr>"

definition log_group_properties_number :: template where
  "log_group_properties_number =
     \<lparr>Parameters = [],
      Resources =
        [(''New'', new_function),
         (''Odd'', PDict [(''Type'', PStr ''AWS::Logs::LogGroup''), (''Properties'', PInt 14)])]\<rparr>"

definition source_properties_list :: template where
  "source_properties_list =
     \<lparr>Parameters = [],
      Resources =
        [(''Queue'', queue_source),
         (''Odd'', PDict [(''Type'', PStr ''AWS::Lambda::EventSourceMapping''),
                         (''Properties'', PList [])])]\<rparr>"

definition invoke_config_properties_list :: template where
  "invoke_config_properties_list =
     \<lparr>Parameters = [],
      Resources =
        [(''New'', new_function), (''Schedule'', rule_for ''New''),
         (''Odd'', PDict [(''Type'', PStr ''AWS::Lambda::EventInvokeConfig''),
                         (''Properties'', PList [])])]\<rparr>"

text \<open>Templates that CloudFormation accepts and on which a rule raises.\<close>

definition function_without_properties :: template where
  "function_without_properties =
     \<lparr>Parameters = [],
      Resources = [(''Plain'', PDict [(''Type'', PStr ''AWS::Lambda::Function'')])]\<rparr>"

definition log_group_without_properties :: template where
  "log_group_without_properties =
     \<lparr>Parameters = [],
      Resources = [(''Logs'', PDict [(''Type'', PStr ''AWS::Logs::LogGroup'')])]\<rparr>"

definition invoke_config_named_function :: template where
  "invoke_config_named_function =
     \<lparr>Parameters = [],
      Resources =
        [(''Invoke'', PDict [(''Type'', PStr ''AWS::Lambda::EventInvokeConfig''),
                            (''Properties'',
                               PDict [(''FunctionName'', PStr ''orders-handler''),
                                      (''Qualifier'', PStr ''$LATEST''),
                                      (''DestinationConfig'', on_failure_config)])])]\<rparr>"

definition rule_with_arn_string :: template where
  "rule_with_arn_string =
     \<lparr>Parameters = [],
      Resources =
        [(''Notify'', PDict [(''Type'', PStr ''AWS::Events::Rule''),
                            (''Properties'',
                               PDict [(''Targets'',
                                  PList [PDict [(''Arn'', PStr ''arn:aws:sns:eu-west-1:1:alerts''),
                                                (''Id'', PStr ''topic'')]])])])]\<rparr>"

section \<open>Loops and lookups\<close>

text \<open>What a successful bind, and a successful lookup, says about its parts.\<close>

lemma bind_err_Inr:
  "bind_err m f = Inr r \<longleftrightarrow> (\<exists>v. m = Inr v \<and> f v = Inr r)"
  by (cases m) simp_all

lemma bind_err_split:
  "P (bind_err m f) \<longleftrightarrow> (\<forall>e. m = Inl e \<longrightarrow> P (Inl e)) \<and> (\<forall>v. m = Inr v \<longrightarrow> P (f v))"
  by (cases m) simp_all

lemma py_get_Inr:
  "py_get x k dflt = Inr v \<longleftrightarrow>
     (\<exists>d. x = PDict d \<and> v = (case map_of d k of Some w \<Rightarrow> w | None \<Rightarrow> dflt))"
  by (cases x) auto

lemma py_getitem_Inr:
  "py_getitem x k = Inr v \<longleftrightarrow> (\<exists>d. x = PDict d \<and> map_of d k = Some v)"
  by (cases x) (auto split: option.splits)

lemma isinstance_dict_iff: "isinstance_dict x \<longleftrightarrow> (\<exists>d. x = PDict d)"
  by (cases x) simp_all

lemma py_re_search_Inr: "py_re_search x = Inr m \<longleftrightarrow> (\<exists>s. x = PStr s \<and> m = re_search s)"
  by (cases x) auto

lemma map_of_in_keys: "k \<in> fst ` set d \<longleftrightarrow> (\<exists>v. map_of d k = Some v)"
  by (metis map_of_eq_None_iff not_None_eq)

lemma py_getitem0_not_None: "py_getitem0 g = Inr v \<Longrightarrow> g \<noteq> PNone"
  by (cases g) simp_all

lemma py_in_keys_Inr_True: "py_in_keys v ks = Inr True \<longleftrightarrow> (\<exists>name. v = PStr name \<and> name \<in> set ks)"
  by (cases v) auto

text \<open>
  Every loop body of the rules appends to its accumulator what it finds in the current
  element, or raises. Such a loop returns exactly when each body does, and then it has
  appended the findings in order.
\<close>

lemma for_each_appending:
  assumes "\<And>x s. body x s = bind_err (body x []) (\<lambda>ys. Inr (s @ ys))"
  shows "for_each body xs s = Inr r \<longleftrightarrow>
           (\<forall>x \<in> set xs. \<exists>ys. body x [] = Inr ys)
           \<and> r = s @ concat (map (\<lambda>x. projr (body x [])) xs)"
proof (induction xs arbitrary: s)
  case Nil
  show ?case by auto
next
  case (Cons x xs)
  show ?case
  proof (cases "body x []")
    case (Inl e)
    then have "body x s = Inl e" using assms [of x s] by simp
    with Inl show ?thesis by simp
  next
    case (Inr ys)
    then have "body x s = Inr (s @ ys)" using assms [of x s] by simp
    with Inr Cons.IH [of "s @ ys"] show ?thesis by simp
  qed
qed

lemma for_each_shift:
  assumes "\<And>x s. body x s = bind_err (body x []) (\<lambda>ys. Inr (s @ ys))"
  shows "for_each body xs s = bind_err (for_each body xs []) (\<lambda>ys. Inr (s @ ys))"
proof (induction xs arbitrary: s)
  case Nil
  show ?case by simp
next
  case (Cons x xs)
  show ?case
  proof (cases "body x []")
    case (Inl e)
    then have "body x s = Inl e" using assms [of x s] by simp
    with Inl show ?thesis by simp
  next
    case (Inr ys)
    then have step: "body x s = Inr (s @ ys)" using assms [of x s] by simp
    have "for_each body xs (s @ ys) = bind_err (for_each body xs []) (\<lambda>zs. Inr ((s @ ys) @ zs))"
      by (rule Cons.IH)
    moreover have "for_each body xs ys = bind_err (for_each body xs []) (\<lambda>zs. Inr (ys @ zs))"
      by (rule Cons.IH)
    ultimately show ?thesis using Inr step
      by (cases "for_each body xs []") simp_all
  qed
qed

text \<open>A property of the accumulator that every iteration keeps holds of the result.\<close>

lemma for_each_invariant:
  assumes "for_each body xs s = Inr r" and "P s"
    and "\<And>x s s'. x \<in> set xs \<Longrightarrow> P s \<Longrightarrow> body x s = Inr s' \<Longrightarrow> P s'"
  shows "P r"
  using assms
proof (induction xs arbitrary: s)
  case Nil
  then show ?case by simp
next
  case (Cons x xs)
  from Cons.prems(1) obtain s' where step: "body x s = Inr s'" and rest: "for_each body xs s' = Inr r"
    by (cases "body x s") simp_all
  have here: "P s'" using Cons.prems(3) [of x s s'] Cons.prems(2) step by simp
  have later: "P t'" if "y \<in> set xs" "P t" "body y t = Inr t'" for y t t'
    using Cons.prems(3) [of y t t'] that by simp
  show ?case by (rule Cons.IH [OF rest here]) (rule later)
qed

text \<open>The resources of a type are resources of the template, in the same order.\<close>

lemma get_resources_key:
  "kv \<in> set (get_resources cfn types) \<Longrightarrow> fst kv \<in> fst ` set (Resources cfn)"
  by (auto simp: get_resources_def)

lemma distinct_get_resources:
  "distinct (map fst (Resources cfn)) \<Longrightarrow> distinct (map fst (get_resources cfn types))"
  by (simp add: get_resources_def distinct_map_filter)

lemma resource_path:
  "kv \<in> set (get_resources cfn types) \<Longrightarrow>
   \<exists>key \<in> fst ` set (Resources cfn). [''Resources'', fst kv] = [''Resources'', key]"
  using get_resources_key [of kv cfn types] by simp

lemma paths_step:
  assumes "\<forall>m \<in> set s. Q (path m)" and "s' = s \<or> (\<exists>msg. s' = s @ [RuleMatch p msg])" and "Q p"
  shows "\<forall>m \<in> set s'. Q (path m)"
  using assms by auto

section \<open>The rules on the example templates\<close>

lemmas example_defs =
  sample_def old_function_def new_function_def bare_function_def old_logs_def queue_source_def
  on_failure_config_def stream_source_def rule_for_def old_invoke_config_def
  function_properties_list_def function_properties_string_def log_group_properties_number_def
  source_properties_list_def invoke_config_properties_list_def function_without_properties_def
  log_group_without_properties_def invoke_config_named_function_def rule_with_arn_string_def

lemmas rule_defs =
  get_resources_def has_type_def function_runtime_def python38_body_def Python38Rule_match_def
  Python38Rule_runtime_def Python38Rule_message_def py_str_def
  log_group_body_def function_body_def LambdaLogGroupRule_match_def LambdaLogGroupRule_message_def
  not_brace_def on_failure_def esm_body_def LambdaESMDestinationConfig_match_def
  LambdaESMDestinationConfig_message_def function_name_ref_def invoke_config_body_def
  target_get_att_def target_function_def target_body_def rule_targets_def rule_body_def
  LambdaRuleInvokeConfig_match_def LambdaRuleInvokeConfig_message_def

lemma sample_python38:
  "Python38Rule_match sample =
     Inr [RuleMatch [''Resources'', ''Old'']
            ''Function is using python2.7 runtime instead of python3.8'']"
  by (simp add: example_defs rule_defs)

lemma sample_log_group:
  "LambdaLogGroupRule_match sample =
     Inr [RuleMatch [''Resources'', ''New'']
            ''Function New does not have a corresponding log group'']"
  by (simp add: example_defs rule_defs)

lemma sample_esm:
  "LambdaESMDestinationConfig_match sample =
     Inr [RuleMatch [''Resources'', ''Queue'']
            ''Event Source Mapping Queue does not have a DestinationConfig with OnFailure destination'']"
  by (simp add: example_defs rule_defs)

lemma sample_invoke_config:
  "LambdaRuleInvokeConfig_match sample =
     Inr [RuleMatch [''Resources'', ''Schedule'']
            ''Rule Schedule does not have a corresponding Event Invoke Config with OnFailure destination'']"
  by (simp add: example_defs rule_defs)

lemma sample_functions:
  "get_resources sample [''AWS::Lambda::Function''] = [(''Old'', old_function), (''New'', new_function)]"
  by (simp add: example_defs get_resources_def has_type_def)

lemma sample_sources:
  "get_resources sample [''AWS::Lambda::EventSourceMapping'']
     = [(''Queue'', queue_source), (''Stream'', stream_source)]"
  by (simp add: example_defs get_resources_def has_type_def)

lemma sample_log_groups:
  "get_resources sample [''AWS::Logs::LogGroup''] = [(''OldLogs'', old_logs)]"
  by (simp add: example_defs get_resources_def has_type_def)

lemma sample_rules:
  "get_resources sample [''AWS::Events::Rule'']
     = [(''Schedule'', rule_for ''New''), (''Alarm'', rule_for ''Old'')]"
  by (simp add: example_defs get_resources_def has_type_def)

lemma sample_invoke_configs:
  "get_resources sample [''AWS::Lambda::EventInvokeConfig''] = [(''OldInvoke'', old_invoke_config)]"
  by (simp add: example_defs get_resources_def has_type_def)

section \<open>MandatoryParametersRule: the required parameter\<close>

text \<open>
  The loop removes each parameter name from the copy, so the copy ends as the required
  names without the names of the template; nothing but the copy is written.
\<close>

lemma mandatory_step_eq:
  "mandatory_step a k h = h\<lparr>cells := (cells h)(a := remove1 k (cells h a))\<rparr>"
  by (simp add: mandatory_step_def list_remove_def remove1_idem)

lemma fold_mandatory_step:
  "fold (mandatory_step a) ks h = h\<lparr>cells := (cells h)(a := fold remove1 ks (cells h a))\<rparr>"
proof (induction ks arbitrary: h)
  case Nil
  show ?case by simp
next
  case (Cons k ks)
  have "fold (mandatory_step a) (k # ks) h = fold (mandatory_step a) ks (mandatory_step a k h)"
    by simp
  also have "\<dots> = (mandatory_step a k h)
      \<lparr>cells := (cells (mandatory_step a k h))(a := fold remove1 ks (cells (mandatory_step a k h) a))\<rparr>"
    by (rule Cons.IH)
  also have "\<dots> = h\<lparr>cells := (cells h)(a := fold remove1 (k # ks) (cells h a))\<rparr>"
    by (simp add: mandatory_step_eq)
  finally show ?case .
qed


lemma MandatoryParametersRule_match_eq:
  "MandatoryParametersRule_match cfn h =
     (map (\<lambda>param. RuleMatch [''Parameters''] (MandatoryParametersRule_message param))
        (fold remove1 (map fst (Parameters cfn)) (cells h MandatoryParametersRule_mandatory_parameters)),
      h\<lparr>cells := (cells h)(fresh h := fold remove1 (map fst (Parameters cfn))
                                         (cells h MandatoryParametersRule_mandatory_parameters)),
        fresh := Suc (fresh h)\<rparr>)"
  by (simp add: MandatoryParametersRule_match_def deepcopy_def fold_mandatory_step get_parameters_def)





section \<open>Python38Rule: the runtime of every function\<close>

lemma function_runtime_props:
  "py_get v ''Properties'' PNone = Inr (PDict props) \<Longrightarrow>
   function_runtime v = Inr (case map_of props ''Runtime'' of Some r \<Rightarrow> r | None \<Rightarrow> PNone)"
  by (simp add: function_runtime_def)

lemma python38_body_appending:
  "python38_body kv s = bind_err (python38_body kv []) (\<lambda>ys. Inr (s @ ys))"
  by (cases kv; cases "function_runtime (snd kv)") (auto simp: python38_body_def)

lemma python38_body_Nil:
  "function_runtime v = Inr r \<Longrightarrow>
   python38_body (k, v) [] =
     Inr (if r = PStr ''python3.8'' then []
          else [RuleMatch [''Resources'', k] (Python38Rule_message r (PStr ''python3.8''))])"
  by (simp add: python38_body_def Python38Rule_runtime_def)

lemma python38_body_step:
  "python38_body kv s = Inr s' \<Longrightarrow> s' = s \<or> (\<exists>msg. s' = s @ [RuleMatch [''Resources'', fst kv] msg])"
  by (cases kv; cases "function_runtime (snd kv)") (auto simp: python38_body_def split: if_splits)

lemma Python38Rule_match_run:
  assumes "\<forall>kv \<in> set (get_resources cfn [''AWS::Lambda::Function'']).
             \<exists>props. py_get (snd kv) ''Properties'' PNone = Inr (PDict props)"
  shows "Python38Rule_match cfn =
           Inr (concat (map (\<lambda>kv. projr (python38_body kv []))
                  (get_resources cfn [''AWS::Lambda::Function''])))"
proof -
  let ?fs = "get_resources cfn [''AWS::Lambda::Function'']"
  have "\<forall>kv \<in> set ?fs. \<exists>ys. python38_body kv [] = Inr ys"
  proof
    fix kv assume "kv \<in> set ?fs"
    then obtain props where "py_get (snd kv) ''Properties'' PNone = Inr (PDict props)"
      using assms by blast
    then show "\<exists>ys. python38_body kv [] = Inr ys"
      using python38_body_Nil [OF function_runtime_props, of "snd kv" props "fst kv"] by simp
  qed
  then show ?thesis
    unfolding Python38Rule_match_def
    using for_each_appending [of python38_body ?fs "[]", OF python38_body_appending]
    by simp
qed

text \<open>
  Among findings that are each nothing or one violation on the key of their resource, the
  violations on one key are those of the resource of that key.
\<close>

lemma count_path_concat:
  assumes "distinct (map fst xs)" and "(key, value) \<in> set xs"
    and "\<And>k v. (k, v) \<in> set xs \<Longrightarrow> g (k, v) = [] \<or> (\<exists>m. g (k, v) = [RuleMatch [''Resources'', k] m])"
  shows "length (filter (\<lambda>m. path m = [''Resources'', key]) (concat (map g xs)))
           = length (g (key, value))"
  using assms
proof (induction xs)
  case Nil
  then show ?case by simp
next
  case (Cons x xs)
  obtain k v where x: "x = (k, v)" by (cases x)
  have gx: "g (k, v) = [] \<or> (\<exists>m. g (k, v) = [RuleMatch [''Resources'', k] m])"
    using Cons.prems(3) [of k v] x by simp
  have rest: "\<And>k v. (k, v) \<in> set xs \<Longrightarrow> g (k, v) = [] \<or> (\<exists>m. g (k, v) = [RuleMatch [''Resources'', k] m])"
    using Cons.prems(3) by simp
  show ?case
  proof (cases "(key, value) = x")
    case True
    then have kk: "k = key" "v = value" using x by auto
    have "key \<notin> fst ` set xs" using Cons.prems(1) x kk by simp
    then have none: "\<And>k' v'. (k', v') \<in> set xs \<Longrightarrow> k' \<noteq> key" by force
    have "filter (\<lambda>m. path m = [''Resources'', key]) (concat (map g xs)) = []"
    proof -
      have "\<forall>m \<in> set (concat (map g xs)). path m \<noteq> [''Resources'', key]"
      proof
        fix m assume "m \<in> set (concat (map g xs))"
        then obtain k' v' where in': "(k', v') \<in> set xs" and m: "m \<in> set (g (k', v'))" by auto
        from rest [OF in'] m obtain msg where "m = RuleMatch [''Resources'', k'] msg" by auto
        with none [OF in'] show "path m \<noteq> [''Resources'', key]" by simp
      qed
      then show ?thesis by (simp add: filter_empty_conv)
    qed
    with gx x kk show ?thesis by auto
  next
    case False
    then have in_xs: "(key, value) \<in> set xs" using Cons.prems(2) by simp
    then have "key \<in> fst ` set xs" by force
    then have "k \<noteq> key" using Cons.prems(1) x by auto
    then have "filter (\<lambda>m. path m = [''Resources'', key]) (g (k, v)) = []"
      using gx by auto
    moreover have "length (filter (\<lambda>m. path m = [''Resources'', key]) (concat (map g xs)))
           = length (g (key, value))"
      using Cons.IH [OF _ in_xs rest] Cons.prems(1) by simp
    ultimately show ?thesis using x by simp
  qed
qed

text \<open>
  Claim C1, amended. The rule evaluates \<^verbatim>\<open>value.get("Properties").get("Runtime")\<close> on
  every function, which raises unless Properties is a mapping. In a template where every
  function resource has a Properties mapping, the rule returns a list that holds exactly
  one violation with path \<open>["Resources", key]\<close> for each function whose runtime is not the
  string \<open>python3.8\<close>, and none for a function whose runtime is that string.
\<close>

theorem Python38Rule_match_counts:
  assumes keys: "distinct (map fst (Resources cfn))"
    and props: "\<forall>kv \<in> set (get_resources cfn [''AWS::Lambda::Function'']).
                 \<exists>props. py_get (snd kv) ''Properties'' PNone = Inr (PDict props)"
  shows "\<exists>ms. Python38Rule_match cfn = Inr ms \<and>
           (\<forall>key value. (key, value) \<in> set (get_resources cfn [''AWS::Lambda::Function'']) \<longrightarrow>
              length (filter (\<lambda>m. path m = [''Resources'', key]) ms)
                = (if function_runtime value = Inr (PStr ''python3.8'') then 0 else 1))"
proof -
  let ?fs = "get_resources cfn [''AWS::Lambda::Function'']"
  let ?g = "\<lambda>kv. projr (python38_body kv [])"
  have rt: "\<exists>r. function_runtime v = Inr r" if "(k, v) \<in> set ?fs" for k v
    using props that function_runtime_props by fastforce
  have shape: "?g (k, v) = [] \<or> (\<exists>m. ?g (k, v) = [RuleMatch [''Resources'', k] m])"
    if kv: "(k, v) \<in> set ?fs" for k v
  proof -
    obtain r where "function_runtime v = Inr r" using rt [OF kv] by auto
    then show ?thesis using python38_body_Nil [of v r k] by auto
  qed
  have count: "length (filter (\<lambda>m. path m = [''Resources'', key]) (concat (map ?g ?fs)))
                 = (if function_runtime res = Inr (PStr ''python3.8'') then 0 else 1)"
    if kv: "(key, res) \<in> set ?fs" for key res
  proof -
    obtain r where r: "function_runtime res = Inr r" using rt [OF kv] by auto
    have "length (filter (\<lambda>m. path m = [''Resources'', key]) (concat (map ?g ?fs)))
            = length (?g (key, res))"
      using count_path_concat [of ?fs key res ?g, OF distinct_get_resources [OF keys] kv] shape
      by blast
    also have "\<dots> = (if function_runtime res = Inr (PStr ''python3.8'') then 0 else 1)"
      using r python38_body_Nil [OF r, of key] by simp
    finally show ?thesis .
  qed
  show ?thesis using Python38Rule_match_run [OF props] count by blast
qed

theorem Python38Rule_match_counts_witness:
  "\<exists>ms. Python38Rule_match sample = Inr ms
     \<and> length (filter (\<lambda>m. path m = [''Resources'', ''Old'']) ms) = 1
     \<and> length (filter (\<lambda>m. path m = [''Resources'', ''New'']) ms) = 0"
proof -
  have keys: "distinct (map fst (Resources sample))"
    by (simp add: sample_def)
  have props: "\<forall>kv \<in> set (get_resources sample [''AWS::Lambda::Function'']).
                 \<exists>props. py_get (snd kv) ''Properties'' PNone = Inr (PDict props)"
    by (simp add: sample_functions old_function_def new_function_def)
  from Python38Rule_match_counts [OF keys props] obtain ms
    where run: "Python38Rule_match sample = Inr ms"
      and count: "\<And>key res. (key, res) \<in> set (get_resources sample [''AWS::Lambda::Function'']) \<Longrightarrow>
              length (filter (\<lambda>m. path m = [''Resources'', key]) ms)
                = (if function_runtime res = Inr (PStr ''python3.8'') then 0 else 1)"
    by blast
  have "length (filter (\<lambda>m. path m = [''Resources'', ''Old'']) ms) = 1"
    using count [of "''Old''" old_function]
    by (simp add: sample_functions old_function_def function_runtime_def)
  moreover have "length (filter (\<lambda>m. path m = [''Resources'', ''New'']) ms) = 0"
    using count [of "''New''" new_function]
    by (simp add: sample_functions new_function_def function_runtime_def)
  ultimately show ?thesis using run by blast
qed

text \<open>
  As the claim is written it fails where a function's Properties is not a mapping: the
  rule raises, and the function with runtime \<open>python2.7\<close> gets no violation.
\<close>

theorem Python38Rule_match_counts_fails:
  "(''Old'', old_function) \<in> set (get_resources function_properties_list [''AWS::Lambda::Function''])
   \<and> function_runtime old_function = Inr (PStr ''python2.7'')
   \<and> Python38Rule_match function_properties_list = Inl AttributeError"
  by (simp add: example_defs rule_defs)

text \<open>
  Claim C9, amended. In a template where every function resource has a Properties
  mapping, a function whose Properties has no Runtime key is reported with the message
  \<open>Function is using None runtime instead of python3.8\<close>.
\<close>

theorem Python38Rule_match_absent_runtime:
  assumes props: "\<forall>kv \<in> set (get_resources cfn [''AWS::Lambda::Function'']).
                    \<exists>props. py_get (snd kv) ''Properties'' PNone = Inr (PDict props)"
    and kv: "(key, resource) \<in> set (get_resources cfn [''AWS::Lambda::Function''])"
    and own: "py_get resource ''Properties'' PNone = Inr (PDict properties)"
    and absent: "''Runtime'' \<notin> fst ` set properties"
  shows "\<exists>ms. Python38Rule_match cfn = Inr ms \<and>
           RuleMatch [''Resources'', key] ''Function is using None runtime instead of python3.8''
             \<in> set ms"
proof -
  have "map_of properties ''Runtime'' = None"
    using absent by (simp add: map_of_eq_None_iff)
  then have "function_runtime resource = Inr PNone"
    using function_runtime_props [OF own] by simp
  then have "python38_body (key, resource) [] =
               Inr [RuleMatch [''Resources'', key]
                      ''Function is using None runtime instead of python3.8'']"
    using python38_body_Nil [of resource PNone key]
    by (simp add: Python38Rule_message_def py_str_def)
  then have "RuleMatch [''Resources'', key] ''Function is using None runtime instead of python3.8''
               \<in> set (concat (map (\<lambda>kv. projr (python38_body kv []))
                      (get_resources cfn [''AWS::Lambda::Function''])))"
    using kv by force
  then show ?thesis using Python38Rule_match_run [OF props] by simp
qed

theorem Python38Rule_match_absent_runtime_witness:
  "\<exists>ms. Python38Rule_match
           \<lparr>Parameters = [], Resources = [(''Bare'', bare_function), (''New'', new_function)]\<rparr> = Inr ms
     \<and> RuleMatch [''Resources'', ''Bare''] ''Function is using None runtime instead of python3.8''
          \<in> set ms"
proof -
  let ?cfn = "\<lparr>Parameters = [], Resources = [(''Bare'', bare_function), (''New'', new_function)]\<rparr>"
  have fs: "get_resources ?cfn [''AWS::Lambda::Function'']
              = [(''Bare'', bare_function), (''New'', new_function)]"
    by (simp add: example_defs get_resources_def has_type_def)
  have props: "\<forall>kv \<in> set (get_resources ?cfn [''AWS::Lambda::Function'']).
                 \<exists>props. py_get (snd kv) ''Properties'' PNone = Inr (PDict props)"
    unfolding fs by (simp add: bare_function_def new_function_def)
  have kv: "(''Bare'', bare_function) \<in> set (get_resources ?cfn [''AWS::Lambda::Function''])"
    by (simp add: fs)
  have own: "py_get bare_function ''Properties'' PNone
               = Inr (PDict [(''Handler'', PStr ''main.handler'')])"
    by (simp add: bare_function_def)
  have absent: "''Runtime'' \<notin> fst ` set [(''Handler'', PStr ''main.handler'')]"
    by simp
  show ?thesis
    by (rule Python38Rule_match_absent_runtime [OF props kv own absent])
qed

text \<open>
  Without the condition it fails: beside a function whose Properties is a string, the
  function without a Runtime key is not reported, since the rule raises.
\<close>

theorem Python38Rule_match_absent_runtime_fails:
  "(''Bare'', bare_function) \<in> set (get_resources function_properties_string [''AWS::Lambda::Function''])
   \<and> py_get bare_function ''Properties'' PNone = Inr (PDict [(''Handler'', PStr ''main.handler'')])
   \<and> Python38Rule_match function_properties_string = Inl AttributeError"
  by (simp add: example_defs rule_defs)

section \<open>LambdaLogGroupRule: a log group for every function\<close>

text \<open>
  When the scan of one log group returns, it has found the name \<open>f\<close> exactly if the
  LogGroupName of the log group is a mapping whose \<open>Fn::Sub\<close> is a string in which the
  pattern first matches \<open>f\<close>.
\<close>

lemma log_group_body_appending:
  "log_group_body r s = bind_err (log_group_body r []) (\<lambda>ys. Inr (s @ ys))"
  by (simp add: log_group_body_def split: bind_err_split option.split)

lemma log_group_body_known:
  assumes "log_group_body r [] = Inr ys"
  shows "f \<in> set ys \<longleftrightarrow>
           (\<exists>props name s. py_get r ''Properties'' PNone = Inr (PDict props)
              \<and> map_of props ''LogGroupName'' = Some (PDict name)
              \<and> map_of name ''Fn::Sub'' = Some (PStr s) \<and> re_search s = Some f)"
proof -
  from assms obtain props named where props: "py_get r ''Properties'' PNone = Inr props"
    and named: "py_contains ''LogGroupName'' props = Inr named"
    by (auto simp: log_group_body_def bind_err_Inr)
  show ?thesis
  proof (cases named)
    case False
    then have "ys = []" using assms props named by (simp add: log_group_body_def)
    moreover have "\<not> (\<exists>p name. props = PDict p \<and> map_of p ''LogGroupName'' = Some (PDict name))"
      using named False by (auto simp: map_of_in_keys)
    ultimately show ?thesis using props by auto
  next
    case True
    then obtain log_group_name where lgn: "py_get props ''LogGroupName'' PNone = Inr log_group_name"
      using assms props named by (auto simp: log_group_body_def bind_err_Inr)
    then obtain p where p: "props = PDict p" by (auto simp: py_get_Inr)
    with named True obtain w where w: "map_of p ''LogGroupName'' = Some w"
      by (auto simp: map_of_in_keys)
    with lgn p have lgn_w: "log_group_name = w" by simp
    show ?thesis
    proof (cases "\<exists>name. w = PDict name")
      case False
      then have "ys = []"
        using assms props named True lgn lgn_w
        by (simp add: log_group_body_def isinstance_dict_iff)
      with False props p w show ?thesis by auto
    next
      case True
      then obtain name where name: "w = PDict name" by blast
      show ?thesis
      proof (cases "map_of name ''Fn::Sub''")
        case None
        then have "ys = []"
          using assms props named \<open>named\<close> lgn lgn_w name
          by (simp add: log_group_body_def map_of_eq_None_iff)
        with None props p w name show ?thesis by auto
      next
        case (Some sub)
        then have has: "''Fn::Sub'' \<in> fst ` set name" by (auto simp: map_of_in_keys)
        from assms props named \<open>named\<close> lgn lgn_w name Some has
        obtain m where m: "py_re_search sub = Inr m"
          and ys: "ys = (case m of None \<Rightarrow> [] | Some func \<Rightarrow> [func])"
          by (auto simp: log_group_body_def bind_err_Inr split: option.splits)
        from m obtain s where s: "sub = PStr s" "m = re_search s"
          by (auto simp: py_re_search_Inr)
        show ?thesis using props p w name Some s ys by (auto split: option.splits)
      qed
    qed
  qed
qed

lemma log_group_body_returns:
  assumes "py_get r ''Properties'' PNone = Inr (PDict props)"
    and "\<forall>name sub. map_of props ''LogGroupName'' = Some (PDict name)
            \<and> map_of name ''Fn::Sub'' = Some sub \<longrightarrow> (\<exists>s. sub = PStr s)"
  shows "\<exists>ys. log_group_body r [] = Inr ys"
proof (cases "map_of props ''LogGroupName''")
  case None
  then have "''LogGroupName'' \<notin> fst ` set props" by (simp add: map_of_eq_None_iff)
  then show ?thesis using assms(1) by (simp add: log_group_body_def)
next
  case (Some w)
  then have named: "''LogGroupName'' \<in> fst ` set props" by (auto simp: map_of_in_keys)
  show ?thesis
  proof (cases "\<exists>name. w = PDict name")
    case False
    then show ?thesis using assms(1) Some named
      by (simp add: log_group_body_def isinstance_dict_iff)
  next
    case True
    then obtain name where name: "w = PDict name" by blast
    show ?thesis
    proof (cases "map_of name ''Fn::Sub''")
      case None
      then show ?thesis using assms(1) Some named name
        by (simp add: log_group_body_def map_of_eq_None_iff)
    next
      case sub: (Some sub)
      then obtain s where "sub = PStr s" using assms(2) Some name by blast
      moreover have "''Fn::Sub'' \<in> fst ` set name" using sub by (auto simp: map_of_in_keys)
      ultimately show ?thesis using assms(1) Some named name sub
        by (simp add: log_group_body_def split: option.split)
    qed
  qed
qed

lemma function_body_appending:
  "function_body known f s = bind_err (function_body known f []) (\<lambda>ys. Inr (s @ ys))"
  by (simp add: function_body_def)

lemma function_body_step:
  "function_body known f s = Inr s' \<Longrightarrow> s' = s \<or> (\<exists>msg. s' = s @ [RuleMatch [''Resources'', f] msg])"
  by (auto simp: function_body_def split: if_splits)

text \<open>
  Claim C4, amended. The rule raises on some templates, so the claim holds of the
  templates on which it returns. It returns whenever every log group has a Properties
  mapping in which the \<open>Fn::Sub\<close> of a LogGroupName mapping is a string. When it returns,
  it reports a function \<open>f\<close> exactly if no log group has a LogGroupName mapping whose
  \<open>Fn::Sub\<close> is a string with \<open>f\<close> as its first substitution variable.
\<close>

theorem LambdaLogGroupRule_match_reports:
  "((\<forall>lg \<in> snd ` set (get_resources cfn [''AWS::Logs::LogGroup'']).
       \<exists>props. py_get lg ''Properties'' PNone = Inr (PDict props)
         \<and> (\<forall>name sub. map_of props ''LogGroupName'' = Some (PDict name)
                \<and> map_of name ''Fn::Sub'' = Some sub \<longrightarrow> (\<exists>s. sub = PStr s)))
     \<longrightarrow> (\<exists>ms. LambdaLogGroupRule_match cfn = Inr ms))
   \<and> (\<forall>ms. LambdaLogGroupRule_match cfn = Inr ms \<longrightarrow>
         (\<forall>f \<in> fst ` set (get_resources cfn [''AWS::Lambda::Function'']).
            (\<exists>m \<in> set ms. path m = [''Resources'', f]) \<longleftrightarrow>
            \<not> (\<exists>lg \<in> snd ` set (get_resources cfn [''AWS::Logs::LogGroup'']).
                 \<exists>props name s. py_get lg ''Properties'' PNone = Inr (PDict props)
                   \<and> map_of props ''LogGroupName'' = Some (PDict name)
                   \<and> map_of name ''Fn::Sub'' = Some (PStr s) \<and> re_search s = Some f)))"
proof -
  let ?lgs = "map snd (get_resources cfn [''AWS::Logs::LogGroup''])"
  let ?fs = "map fst (get_resources cfn [''AWS::Lambda::Function''])"
  let ?k = "\<lambda>lg. projr (log_group_body lg [])"
  let ?g = "\<lambda>known f. projr (function_body known f [])"
  have second: "for_each (function_body known) ?fs [] = Inr (concat (map (?g known) ?fs))" for known
    using for_each_appending [of "function_body known" ?fs "[]", OF function_body_appending]
    by (simp add: function_body_def)
  have first: "for_each log_group_body ?lgs [] = Inr known \<longleftrightarrow>
                 (\<forall>lg \<in> set ?lgs. \<exists>ys. log_group_body lg [] = Inr ys)
                 \<and> known = concat (map ?k ?lgs)" for known
    using for_each_appending [of log_group_body ?lgs "[]" known, OF log_group_body_appending]
    by simp
  have returns: "\<exists>ms. LambdaLogGroupRule_match cfn = Inr ms"
    if wf: "\<forall>lg \<in> snd ` set (get_resources cfn [''AWS::Logs::LogGroup'']).
       \<exists>props. py_get lg ''Properties'' PNone = Inr (PDict props)
         \<and> (\<forall>name sub. map_of props ''LogGroupName'' = Some (PDict name)
                \<and> map_of name ''Fn::Sub'' = Some sub \<longrightarrow> (\<exists>s. sub = PStr s))"
  proof -
    have "\<forall>lg \<in> set ?lgs. \<exists>ys. log_group_body lg [] = Inr ys"
    proof
      fix lg assume "lg \<in> set ?lgs"
      then have "lg \<in> snd ` set (get_resources cfn [''AWS::Logs::LogGroup''])" by simp
      with wf obtain props where "py_get lg ''Properties'' PNone = Inr (PDict props)"
        and "\<forall>name sub. map_of props ''LogGroupName'' = Some (PDict name)
                \<and> map_of name ''Fn::Sub'' = Some sub \<longrightarrow> (\<exists>s. sub = PStr s)"
        by blast
      then show "\<exists>ys. log_group_body lg [] = Inr ys" by (rule log_group_body_returns)
    qed
    then have "for_each log_group_body ?lgs [] = Inr (concat (map ?k ?lgs))"
      using first by simp
    then show ?thesis
      by (simp add: LambdaLogGroupRule_match_def Let_def second)
  qed
  have reports: "(\<exists>m \<in> set ms. path m = [''Resources'', f]) \<longleftrightarrow>
            \<not> (\<exists>lg \<in> snd ` set (get_resources cfn [''AWS::Logs::LogGroup'']).
                 \<exists>props name s. py_get lg ''Properties'' PNone = Inr (PDict props)
                   \<and> map_of props ''LogGroupName'' = Some (PDict name)
                   \<and> map_of name ''Fn::Sub'' = Some (PStr s) \<and> re_search s = Some f)"
    if run: "LambdaLogGroupRule_match cfn = Inr ms"
      and f: "f \<in> fst ` set (get_resources cfn [''AWS::Lambda::Function''])" for ms f
  proof -
    from run obtain known where k: "for_each log_group_body ?lgs [] = Inr known"
      and ms: "for_each (function_body known) ?fs [] = Inr ms"
      by (auto simp: LambdaLogGroupRule_match_def Let_def bind_err_Inr)
    from k first have each: "\<forall>lg \<in> set ?lgs. \<exists>ys. log_group_body lg [] = Inr ys"
      and known: "known = concat (map ?k ?lgs)" by simp_all
    have in_known: "f \<in> set known \<longleftrightarrow>
        (\<exists>lg \<in> snd ` set (get_resources cfn [''AWS::Logs::LogGroup'']).
                 \<exists>props name s. py_get lg ''Properties'' PNone = Inr (PDict props)
                   \<and> map_of props ''LogGroupName'' = Some (PDict name)
                   \<and> map_of name ''Fn::Sub'' = Some (PStr s) \<and> re_search s = Some f)"
    proof -
      have "f \<in> set known \<longleftrightarrow> (\<exists>lg \<in> set ?lgs. f \<in> set (?k lg))"
        using known by auto
      also have "\<dots> \<longleftrightarrow> (\<exists>lg \<in> set ?lgs.
                 \<exists>props name s. py_get lg ''Properties'' PNone = Inr (PDict props)
                   \<and> map_of props ''LogGroupName'' = Some (PDict name)
                   \<and> map_of name ''Fn::Sub'' = Some (PStr s) \<and> re_search s = Some f)"
      proof (rule bex_cong [OF refl])
        fix lg assume "lg \<in> set ?lgs"
        with each obtain ys where ys: "log_group_body lg [] = Inr ys" by blast
        then show "f \<in> set (?k lg) \<longleftrightarrow> (\<exists>props name s. py_get lg ''Properties'' PNone = Inr (PDict props)
                   \<and> map_of props ''LogGroupName'' = Some (PDict name)
                   \<and> map_of name ''Fn::Sub'' = Some (PStr s) \<and> re_search s = Some f)"
          using log_group_body_known [OF ys, of f] by simp
      qed
      finally show ?thesis by simp
    qed
    have "ms = concat (map (?g known) ?fs)" using ms second [of known] by simp
    then have "(\<exists>m \<in> set ms. path m = [''Resources'', f]) \<longleftrightarrow>
                 (\<exists>f' \<in> set ?fs. f' \<notin> set known \<and> f' = f)"
      by (auto simp: function_body_def)
    also have "\<dots> \<longleftrightarrow> f \<notin> set known" using f by auto
    finally show ?thesis using in_known by simp
  qed
  show ?thesis using returns reports by blast
qed

theorem LambdaLogGroupRule_match_reports_witness:
  "\<exists>ms. LambdaLogGroupRule_match sample = Inr ms
     \<and> (\<exists>m \<in> set ms. path m = [''Resources'', ''New''])
     \<and> \<not> (\<exists>m \<in> set ms. path m = [''Resources'', ''Old''])"
proof -
  have shape: "\<forall>lg \<in> snd ` set (get_resources sample [''AWS::Logs::LogGroup'']).
       \<exists>props. py_get lg ''Properties'' PNone = Inr (PDict props)
         \<and> (\<forall>name sub. map_of props ''LogGroupName'' = Some (PDict name)
                \<and> map_of name ''Fn::Sub'' = Some sub \<longrightarrow> (\<exists>s. sub = PStr s))"
    unfolding sample_log_groups by (simp add: old_logs_def)
  from LambdaLogGroupRule_match_reports [of sample] shape obtain ms
    where run: "LambdaLogGroupRule_match sample = Inr ms" by blast
  with LambdaLogGroupRule_match_reports [of sample]
  have iff: "(\<exists>m \<in> set ms. path m = [''Resources'', f]) \<longleftrightarrow>
            \<not> (\<exists>lg \<in> snd ` set (get_resources sample [''AWS::Logs::LogGroup'']).
                 \<exists>props name s. py_get lg ''Properties'' PNone = Inr (PDict props)
                   \<and> map_of props ''LogGroupName'' = Some (PDict name)
                   \<and> map_of name ''Fn::Sub'' = Some (PStr s) \<and> re_search s = Some f)"
    if "f \<in> fst ` set (get_resources sample [''AWS::Lambda::Function''])" for f
    using that by blast
  have "\<exists>m \<in> set ms. path m = [''Resources'', ''New'']"
    using iff [of "''New''"]
    by (simp add: sample_functions sample_log_groups old_logs_def not_brace_def)
  moreover have "\<not> (\<exists>m \<in> set ms. path m = [''Resources'', ''Old''])"
    using iff [of "''Old''"]
    by (simp add: sample_functions sample_log_groups old_logs_def not_brace_def)
  ultimately show ?thesis using run by blast
qed

text \<open>
  As the claim is written it fails where a log group's Properties is a number: no log
  group names the function \<open>New\<close>, and the rule raises instead of reporting it.
\<close>

theorem LambdaLogGroupRule_match_reports_fails:
  "''New'' \<in> fst ` set (get_resources log_group_properties_number [''AWS::Lambda::Function''])
   \<and> py_get (PDict [(''Type'', PStr ''AWS::Logs::LogGroup''), (''Properties'', PInt 14)])
        ''Properties'' PNone = Inr (PInt 14)
   \<and> get_resources log_group_properties_number [''AWS::Logs::LogGroup'']
       = [(''Odd'', PDict [(''Type'', PStr ''AWS::Logs::LogGroup''), (''Properties'', PInt 14)])]
   \<and> LambdaLogGroupRule_match log_group_properties_number = Inl TypeError"
  by (simp add: example_defs rule_defs)

section \<open>LambdaESMDestinationConfig: a failure destination for every event source\<close>

lemma esm_body_appending:
  "esm_body kv s = bind_err (esm_body kv []) (\<lambda>ys. Inr (s @ ys))"
  by (cases kv; cases "on_failure (snd kv)") (auto simp: esm_body_def)

lemma esm_body_Nil:
  "on_failure v = Inr r \<Longrightarrow>
   esm_body (k, v) [] =
     Inr (if r = PNone then [RuleMatch [''Resources'', k] (LambdaESMDestinationConfig_message k)]
          else [])"
  by (simp add: esm_body_def)

lemma esm_body_step:
  "esm_body kv s = Inr s' \<Longrightarrow> s' = s \<or> (\<exists>msg. s' = s @ [RuleMatch [''Resources'', fst kv] msg])"
  by (cases kv; cases "on_failure (snd kv)") (auto simp: esm_body_def split: if_splits)

text \<open>
  Claim C5, amended. The defaults cover a missing key, not a value that is no mapping. In
  a template where the lookup of Properties, DestinationConfig and OnFailure evaluates on
  every event source mapping, the rule returns a list that has a violation with path
  \<open>["Resources", key]\<close> exactly for the event source mappings on which the lookup gives
  None.
\<close>

theorem LambdaESMDestinationConfig_match_reports:
  assumes lookups: "\<forall>kv \<in> set (get_resources cfn [''AWS::Lambda::EventSourceMapping'']).
                      \<exists>r. on_failure (snd kv) = Inr r"
  shows "\<exists>ms. LambdaESMDestinationConfig_match cfn = Inr ms \<and>
           (\<forall>key. (\<exists>m \<in> set ms. path m = [''Resources'', key]) \<longleftrightarrow>
              (\<exists>resource. (key, resource) \<in> set (get_resources cfn [''AWS::Lambda::EventSourceMapping''])
                 \<and> on_failure resource = Inr PNone))"
proof -
  let ?xs = "get_resources cfn [''AWS::Lambda::EventSourceMapping'']"
  let ?g = "\<lambda>kv. projr (esm_body kv [])"
  have g: "?g (k, v) = (if on_failure v = Inr PNone
                        then [RuleMatch [''Resources'', k] (LambdaESMDestinationConfig_message k)]
                        else [])"
    if kv: "(k, v) \<in> set ?xs" for k v
  proof -
    obtain r where "on_failure v = Inr r" using lookups kv by fastforce
    then show ?thesis using esm_body_Nil [of v r k] by simp
  qed
  have ok: "\<forall>kv \<in> set ?xs. \<exists>ys. esm_body kv [] = Inr ys"
  proof
    fix kv assume "kv \<in> set ?xs"
    then obtain r where "on_failure (snd kv) = Inr r" using lookups by blast
    then show "\<exists>ys. esm_body kv [] = Inr ys" using esm_body_Nil [of "snd kv" r "fst kv"] by simp
  qed
  have run: "LambdaESMDestinationConfig_match cfn = Inr (concat (map ?g ?xs))"
    unfolding LambdaESMDestinationConfig_match_def Let_def
    using for_each_appending [of esm_body ?xs "[]", OF esm_body_appending] ok
    by simp
  have "(\<exists>m \<in> set (concat (map ?g ?xs)). path m = [''Resources'', key]) \<longleftrightarrow>
          (\<exists>resource. (key, resource) \<in> set ?xs \<and> on_failure resource = Inr PNone)" for key
  proof
    assume "\<exists>m \<in> set (concat (map ?g ?xs)). path m = [''Resources'', key]"
    then obtain m k v where kv: "(k, v) \<in> set ?xs" and m: "m \<in> set (?g (k, v))"
      and p: "path m = [''Resources'', key]" by auto
    from m g [OF kv] have "on_failure v = Inr PNone \<and> m = RuleMatch [''Resources'', k] (LambdaESMDestinationConfig_message k)"
      by (auto split: if_splits)
    with p kv show "\<exists>resource. (key, resource) \<in> set ?xs \<and> on_failure resource = Inr PNone"
      by auto
  next
    assume "\<exists>resource. (key, resource) \<in> set ?xs \<and> on_failure resource = Inr PNone"
    then obtain v where kv: "(key, v) \<in> set ?xs" and n: "on_failure v = Inr PNone" by blast
    have "RuleMatch [''Resources'', key] (LambdaESMDestinationConfig_message key) \<in> set (?g (key, v))"
      using g [OF kv] n by simp
    then have "RuleMatch [''Resources'', key] (LambdaESMDestinationConfig_message key)
                 \<in> set (concat (map ?g ?xs))"
      using kv by force
    then show "\<exists>m \<in> set (concat (map ?g ?xs)). path m = [''Resources'', key]"
      by force
  qed
  with run show ?thesis by blast
qed

theorem LambdaESMDestinationConfig_match_reports_witness:
  "\<exists>ms. LambdaESMDestinationConfig_match sample = Inr ms
     \<and> (\<exists>m \<in> set ms. path m = [''Resources'', ''Queue''])
     \<and> \<not> (\<exists>m \<in> set ms. path m = [''Resources'', ''Stream''])"
proof -
  have lookups: "\<forall>kv \<in> set (get_resources sample [''AWS::Lambda::EventSourceMapping'']).
                      \<exists>r. on_failure (snd kv) = Inr r"
    by (simp add: sample_sources queue_source_def stream_source_def on_failure_config_def
          on_failure_def)
  from LambdaESMDestinationConfig_match_reports [OF lookups] obtain ms
    where run: "LambdaESMDestinationConfig_match sample = Inr ms"
      and iff: "\<And>key. (\<exists>m \<in> set ms. path m = [''Resources'', key]) \<longleftrightarrow>
              (\<exists>resource. (key, resource) \<in> set (get_resources sample [''AWS::Lambda::EventSourceMapping''])
                 \<and> on_failure resource = Inr PNone)"
    by blast
  have "\<exists>m \<in> set ms. path m = [''Resources'', ''Queue'']"
    unfolding iff [of "''Queue''"]
    by (simp add: sample_sources queue_source_def on_failure_def)
  moreover have "\<not> (\<exists>m \<in> set ms. path m = [''Resources'', ''Stream''])"
    unfolding iff [of "''Stream''"]
    by (simp add: sample_sources stream_source_def on_failure_config_def on_failure_def)
  ultimately show ?thesis using run by blast
qed

text \<open>
  As the claim is written it fails where the Properties of another event source mapping
  is a sequence: the lookup on \<open>Queue\<close> gives None, and the rule raises.
\<close>

theorem LambdaESMDestinationConfig_match_reports_fails:
  "(''Queue'', queue_source) \<in> set (get_resources source_properties_list [''AWS::Lambda::EventSourceMapping''])
   \<and> on_failure queue_source = Inr PNone
   \<and> LambdaESMDestinationConfig_match source_properties_list = Inl AttributeError"
  by (simp add: example_defs rule_defs)

section \<open>LambdaRuleInvokeConfig: a failure destination for every function behind a rule\<close>

lemma invoke_config_body_appending:
  "invoke_config_body c s = bind_err (invoke_config_body c []) (\<lambda>ys. Inr (s @ ys))"
  by (simp add: invoke_config_body_def split: bind_err_split)

lemma invoke_config_body_known:
  assumes "invoke_config_body c [] = Inr ys"
  shows "v \<in> set ys \<longleftrightarrow>
           (\<exists>d. on_failure c = Inr d \<and> d \<noteq> PNone \<and> function_name_ref c = Inr v)"
  using assms by (auto simp: invoke_config_body_def bind_err_Inr split: if_splits)

lemma invoke_config_body_returns:
  assumes "on_failure c = Inr d" and "d \<noteq> PNone \<longrightarrow> (\<exists>ref. function_name_ref c = Inr ref)"
  shows "\<exists>ys. invoke_config_body c [] = Inr ys"
  using assms by (auto simp: invoke_config_body_def)

lemma target_body_appending:
  "target_body key fns icf t s = bind_err (target_body key fns icf t []) (\<lambda>ys. Inr (s @ ys))"
  by (simp add: target_body_def split: bind_err_split)

lemma target_body_step:
  "target_body key fns icf t s = Inr s' \<Longrightarrow>
   s' = s \<or> (\<exists>msg. s' = s @ [RuleMatch [''Resources'', key] msg])"
  by (auto simp: target_body_def bind_err_Inr split: if_splits)

lemma target_function_get_att:
  assumes "target_function t = Inr v"
  shows "\<exists>att. target_get_att t = Inr att \<and> att \<noteq> PNone"
proof -
  from assms obtain arn g where "py_getitem t ''Arn'' = Inr arn"
    and "py_getitem arn ''Fn::GetAtt'' = Inr g" and "py_getitem0 g = Inr v"
    by (auto simp: target_function_def bind_err_Inr)
  then show ?thesis
    using py_getitem0_not_None [of g v]
    by (auto simp: target_get_att_def py_getitem_Inr)
qed

lemma target_body_emits:
  assumes "target_body key fns icf t [] = Inr ys"
  shows "ys = (if \<exists>name. target_function t = Inr (PStr name) \<and> name \<in> set fns
                    \<and> PStr name \<notin> set icf
               then [RuleMatch [''Resources'', key] (LambdaRuleInvokeConfig_message key)]
               else [])"
proof -
  from assms obtain att where att: "target_get_att t = Inr att"
    by (auto simp: target_body_def bind_err_Inr)
  show ?thesis
  proof (cases "att = PNone")
    case True
    then have "ys = []" using assms att by (simp add: target_body_def)
    moreover have "\<not> (\<exists>v. target_function t = Inr v)"
      using target_function_get_att [of t] att True by auto
    ultimately show ?thesis by simp
  next
    case False
    with assms att obtain first declared where first: "target_function t = Inr first"
      and declared: "py_in_keys first fns = Inr declared"
      by (auto simp: target_body_def bind_err_Inr)
    show ?thesis
    proof (cases declared)
      case True
      then obtain name where "first = PStr name" "name \<in> set fns"
        using declared by (auto simp: py_in_keys_Inr_True)
      then show ?thesis using assms att False first declared True
        by (auto simp: target_body_def)
    next
      case no: False
      then have "\<not> (\<exists>name. first = PStr name \<and> name \<in> set fns)"
        using declared by (cases first) auto
      then show ?thesis using assms att False first declared no
        by (auto simp: target_body_def)
    qed
  qed
qed

lemma target_body_returns:
  assumes "target_get_att t = Inr att"
    and "att \<noteq> PNone \<longrightarrow> (\<exists>name. target_function t = Inr (PStr name))"
  shows "\<exists>ys. target_body key fns icf t [] = Inr ys"
  using assms by (auto simp: target_body_def)

lemma rule_body_appending:
  "rule_body fns icf kv s = bind_err (rule_body fns icf kv []) (\<lambda>ys. Inr (s @ ys))"
proof (cases kv)
  case (Pair key r)
  show ?thesis
  proof (cases "rule_targets r")
    case (Inl e)
    then show ?thesis using Pair by (simp add: rule_body_def)
  next
    case (Inr ts)
    then show ?thesis using Pair
      for_each_shift [of "target_body key fns icf" ts s, OF target_body_appending]
      by (simp add: rule_body_def)
  qed
qed

lemma rule_body_step:
  assumes "rule_body fns icf kv s = Inr s'" and "\<forall>m \<in> set s. Q (path m)" and "Q [''Resources'', fst kv]"
  shows "\<forall>m \<in> set s'. Q (path m)"
proof -
  obtain ts where run: "for_each (target_body (fst kv) fns icf) ts s = Inr s'"
    using assms(1) by (cases kv) (auto simp: rule_body_def bind_err_Inr)
  show ?thesis
  proof (rule for_each_invariant [OF run, where P = "\<lambda>s. \<forall>m \<in> set s. Q (path m)"])
    show "\<forall>m \<in> set s. Q (path m)" by (rule assms(2))
  next
    fix t u u'
    assume "\<forall>m \<in> set u. Q (path m)" and "target_body (fst kv) fns icf t u = Inr u'"
    then show "\<forall>m \<in> set u'. Q (path m)"
      using target_body_step [of "fst kv" fns icf t u u'] assms(3) by auto
  qed
qed

lemma rule_body_emits:
  assumes "rule_body fns icf (key, r) [] = Inr ys"
  shows "(\<exists>m \<in> set ys. path m = [''Resources'', key']) \<longleftrightarrow>
           key' = key \<and> (\<exists>ts t name. rule_targets r = Inr ts \<and> t \<in> set ts
              \<and> target_function t = Inr (PStr name) \<and> name \<in> set fns \<and> PStr name \<notin> set icf)"
proof -
  from assms obtain ts where ts: "rule_targets r = Inr ts"
    and run: "for_each (target_body key fns icf) ts [] = Inr ys"
    by (auto simp: rule_body_def bind_err_Inr)
  let ?g = "\<lambda>t. projr (target_body key fns icf t [])"
  from run have each: "\<forall>t \<in> set ts. \<exists>zs. target_body key fns icf t [] = Inr zs"
    and ys: "ys = concat (map ?g ts)"
    using for_each_appending [of "target_body key fns icf" ts "[]" ys, OF target_body_appending]
    by simp_all
  have g: "?g t = (if \<exists>name. target_function t = Inr (PStr name) \<and> name \<in> set fns
                    \<and> PStr name \<notin> set icf
               then [RuleMatch [''Resources'', key] (LambdaRuleInvokeConfig_message key)]
               else [])" if t: "t \<in> set ts" for t
  proof -
    from each t obtain zs where zs: "target_body key fns icf t [] = Inr zs" by blast
    then show ?thesis using target_body_emits [OF zs] by simp
  qed
  have "(\<exists>m \<in> set ys. path m = [''Resources'', key']) \<longleftrightarrow>
          (\<exists>t \<in> set ts. \<exists>m \<in> set (?g t). path m = [''Resources'', key'])"
    using ys by auto
  also have "\<dots> \<longleftrightarrow> (\<exists>t \<in> set ts. key' = key \<and> (\<exists>name. target_function t = Inr (PStr name)
        \<and> name \<in> set fns \<and> PStr name \<notin> set icf))"
  proof (rule bex_cong [OF refl])
    fix t assume "t \<in> set ts"
    then show "(\<exists>m \<in> set (?g t). path m = [''Resources'', key']) \<longleftrightarrow>
      (key' = key \<and> (\<exists>name. target_function t = Inr (PStr name)
        \<and> name \<in> set fns \<and> PStr name \<notin> set icf))"
      using g [of t] by auto
  qed
  finally show ?thesis using ts by auto
qed

lemma rule_body_returns:
  assumes "rule_targets r = Inr ts"
    and "\<forall>t \<in> set ts. \<exists>att. target_get_att t = Inr att
           \<and> (att \<noteq> PNone \<longrightarrow> (\<exists>name. target_function t = Inr (PStr name)))"
  shows "\<exists>ys. rule_body fns icf (key, r) [] = Inr ys"
proof -
  have "\<forall>t \<in> set ts. \<exists>ys. target_body key fns icf t [] = Inr ys"
    using assms(2) target_body_returns by blast
  then have "\<exists>ys. for_each (target_body key fns icf) ts [] = Inr ys"
    using for_each_appending [of "target_body key fns icf" ts "[]", OF target_body_appending]
    by simp
  then show ?thesis using assms(1) by (simp add: rule_body_def)
qed

text \<open>
  Claim C3, amended. The rule raises on some templates, so the claim holds of the
  templates on which it returns. It returns whenever the OnFailure lookup evaluates on
  every invoke configuration, which has a \<open>Ref\<close> under FunctionName where the lookup is not
  None, and every rule has targets whose \<open>Fn::GetAtt\<close> lookup evaluates and, where it is
  not None, starts with a string. When it returns, it reports a rule exactly if the rule
  has a target whose \<open>Fn::GetAtt\<close> starts with the name of a function of the template,
  and no invoke configuration with an OnFailure other than None refers to that name.
\<close>

theorem LambdaRuleInvokeConfig_match_reports:
  "((\<forall>c \<in> snd ` set (get_resources cfn [''AWS::Lambda::EventInvokeConfig'']).
       \<exists>d. on_failure c = Inr d \<and> (d \<noteq> PNone \<longrightarrow> (\<exists>ref. function_name_ref c = Inr ref)))
    \<and> (\<forall>r \<in> snd ` set (get_resources cfn [''AWS::Events::Rule'']).
         \<exists>ts. rule_targets r = Inr ts
           \<and> (\<forall>t \<in> set ts. \<exists>att. target_get_att t = Inr att
                  \<and> (att \<noteq> PNone \<longrightarrow> (\<exists>name. target_function t = Inr (PStr name)))))
     \<longrightarrow> (\<exists>ms. LambdaRuleInvokeConfig_match cfn = Inr ms))
   \<and> (\<forall>ms. LambdaRuleInvokeConfig_match cfn = Inr ms \<longrightarrow>
         (\<forall>key. (\<exists>m \<in> set ms. path m = [''Resources'', key]) \<longleftrightarrow>
            (\<exists>r ts t name. (key, r) \<in> set (get_resources cfn [''AWS::Events::Rule''])
               \<and> rule_targets r = Inr ts \<and> t \<in> set ts
               \<and> target_function t = Inr (PStr name)
               \<and> name \<in> fst ` set (get_resources cfn [''AWS::Lambda::Function''])
               \<and> \<not> (\<exists>c \<in> snd ` set (get_resources cfn [''AWS::Lambda::EventInvokeConfig'']).
                      \<exists>d. on_failure c = Inr d \<and> d \<noteq> PNone
                        \<and> function_name_ref c = Inr (PStr name)))))"
proof -
  let ?cs = "map snd (get_resources cfn [''AWS::Lambda::EventInvokeConfig''])"
  let ?rs = "get_resources cfn [''AWS::Events::Rule'']"
  let ?fns = "map fst (get_resources cfn [''AWS::Lambda::Function''])"
  let ?k = "\<lambda>c. projr (invoke_config_body c [])"
  let ?g = "\<lambda>icf kv. projr (rule_body ?fns icf kv [])"
  have first: "for_each invoke_config_body ?cs [] = Inr icf \<longleftrightarrow>
                 (\<forall>c \<in> set ?cs. \<exists>ys. invoke_config_body c [] = Inr ys)
                 \<and> icf = concat (map ?k ?cs)" for icf
    using for_each_appending [of invoke_config_body ?cs "[]" icf, OF invoke_config_body_appending]
    by simp
  have second: "for_each (rule_body ?fns icf) ?rs [] = Inr ms \<longleftrightarrow>
                 (\<forall>kv \<in> set ?rs. \<exists>ys. rule_body ?fns icf kv [] = Inr ys)
                 \<and> ms = concat (map (?g icf) ?rs)" for icf ms
    using for_each_appending [of "rule_body ?fns icf" ?rs "[]" ms, OF rule_body_appending]
    by simp
  have returns: "\<exists>ms. LambdaRuleInvokeConfig_match cfn = Inr ms"
    if configs: "\<forall>c \<in> snd ` set (get_resources cfn [''AWS::Lambda::EventInvokeConfig'']).
       \<exists>d. on_failure c = Inr d \<and> (d \<noteq> PNone \<longrightarrow> (\<exists>ref. function_name_ref c = Inr ref))"
      and rules: "\<forall>r \<in> snd ` set (get_resources cfn [''AWS::Events::Rule'']).
         \<exists>ts. rule_targets r = Inr ts
           \<and> (\<forall>t \<in> set ts. \<exists>att. target_get_att t = Inr att
                  \<and> (att \<noteq> PNone \<longrightarrow> (\<exists>name. target_function t = Inr (PStr name))))"
  proof -
    have "\<forall>c \<in> set ?cs. \<exists>ys. invoke_config_body c [] = Inr ys"
    proof
      fix c assume "c \<in> set ?cs"
      then have "c \<in> snd ` set (get_resources cfn [''AWS::Lambda::EventInvokeConfig''])" by simp
      with configs obtain d where "on_failure c = Inr d"
        and "d \<noteq> PNone \<longrightarrow> (\<exists>ref. function_name_ref c = Inr ref)" by blast
      then show "\<exists>ys. invoke_config_body c [] = Inr ys" by (rule invoke_config_body_returns)
    qed
    then have one: "for_each invoke_config_body ?cs [] = Inr (concat (map ?k ?cs))"
      using first by simp
    have "\<forall>kv \<in> set ?rs. \<exists>ys. rule_body ?fns (concat (map ?k ?cs)) kv [] = Inr ys"
    proof
      fix kv assume kv: "kv \<in> set ?rs"
      then have "snd kv \<in> snd ` set ?rs" by simp
      with rules obtain ts where "rule_targets (snd kv) = Inr ts"
        and "\<forall>t \<in> set ts. \<exists>att. target_get_att t = Inr att
                  \<and> (att \<noteq> PNone \<longrightarrow> (\<exists>name. target_function t = Inr (PStr name)))"
        by blast
      then have "\<exists>ys. rule_body ?fns (concat (map ?k ?cs)) (fst kv, snd kv) [] = Inr ys"
        by (rule rule_body_returns)
      then show "\<exists>ys. rule_body ?fns (concat (map ?k ?cs)) kv [] = Inr ys" by simp
    qed
    then have "\<exists>ms. for_each (rule_body ?fns (concat (map ?k ?cs))) ?rs [] = Inr ms"
      using second by simp
    then show ?thesis
      using one by (simp add: LambdaRuleInvokeConfig_match_def Let_def)
  qed
  have reports: "(\<exists>m \<in> set ms. path m = [''Resources'', key]) \<longleftrightarrow>
            (\<exists>r ts t name. (key, r) \<in> set (get_resources cfn [''AWS::Events::Rule''])
               \<and> rule_targets r = Inr ts \<and> t \<in> set ts
               \<and> target_function t = Inr (PStr name)
               \<and> name \<in> fst ` set (get_resources cfn [''AWS::Lambda::Function''])
               \<and> \<not> (\<exists>c \<in> snd ` set (get_resources cfn [''AWS::Lambda::EventInvokeConfig'']).
                      \<exists>d. on_failure c = Inr d \<and> d \<noteq> PNone
                        \<and> function_name_ref c = Inr (PStr name)))"
    if run: "LambdaRuleInvokeConfig_match cfn = Inr ms" for ms key
  proof -
    from run obtain icf where one: "for_each invoke_config_body ?cs [] = Inr icf"
      and two: "for_each (rule_body ?fns icf) ?rs [] = Inr ms"
      by (auto simp: LambdaRuleInvokeConfig_match_def Let_def bind_err_Inr)
    from one first have each_c: "\<forall>c \<in> set ?cs. \<exists>ys. invoke_config_body c [] = Inr ys"
      and icf: "icf = concat (map ?k ?cs)" by simp_all
    from two second have each_r: "\<forall>kv \<in> set ?rs. \<exists>ys. rule_body ?fns icf kv [] = Inr ys"
      and ms: "ms = concat (map (?g icf) ?rs)" by simp_all
    have in_icf: "v \<in> set icf \<longleftrightarrow>
        (\<exists>c \<in> snd ` set (get_resources cfn [''AWS::Lambda::EventInvokeConfig'']).
           \<exists>d. on_failure c = Inr d \<and> d \<noteq> PNone \<and> function_name_ref c = Inr v)" for v
    proof -
      have "v \<in> set icf \<longleftrightarrow> (\<exists>c \<in> set ?cs. v \<in> set (?k c))" using icf by auto
      also have "\<dots> \<longleftrightarrow> (\<exists>c \<in> set ?cs.
           \<exists>d. on_failure c = Inr d \<and> d \<noteq> PNone \<and> function_name_ref c = Inr v)"
      proof (rule bex_cong [OF refl])
        fix c assume "c \<in> set ?cs"
        with each_c obtain ys where ys: "invoke_config_body c [] = Inr ys" by blast
        then show "v \<in> set (?k c) \<longleftrightarrow>
            (\<exists>d. on_failure c = Inr d \<and> d \<noteq> PNone \<and> function_name_ref c = Inr v)"
          using invoke_config_body_known [OF ys, of v] by simp
      qed
      finally show ?thesis by simp
    qed
    have "(\<exists>m \<in> set ms. path m = [''Resources'', key]) \<longleftrightarrow>
            (\<exists>kv \<in> set ?rs. \<exists>m \<in> set (?g icf kv). path m = [''Resources'', key])"
      using ms by auto
    also have "\<dots> \<longleftrightarrow> (\<exists>kv \<in> set ?rs. key = fst kv \<and>
        (\<exists>ts t name. rule_targets (snd kv) = Inr ts \<and> t \<in> set ts
              \<and> target_function t = Inr (PStr name) \<and> name \<in> set ?fns \<and> PStr name \<notin> set icf))"
    proof (rule bex_cong [OF refl])
      fix kv assume "kv \<in> set ?rs"
      with each_r obtain ys where ys: "rule_body ?fns icf (fst kv, snd kv) [] = Inr ys" by auto
      show "(\<exists>m \<in> set (?g icf kv). path m = [''Resources'', key]) \<longleftrightarrow>
        (key = fst kv \<and>
        (\<exists>ts t name. rule_targets (snd kv) = Inr ts \<and> t \<in> set ts
              \<and> target_function t = Inr (PStr name) \<and> name \<in> set ?fns \<and> PStr name \<notin> set icf))"
        using rule_body_emits [OF ys, of key] ys by simp
    qed
    also have "\<dots> \<longleftrightarrow> (\<exists>r ts t name. (key, r) \<in> set ?rs
               \<and> rule_targets r = Inr ts \<and> t \<in> set ts
               \<and> target_function t = Inr (PStr name)
               \<and> name \<in> set ?fns \<and> PStr name \<notin> set icf)"
      by force
    finally show ?thesis by (simp add: in_icf)
  qed
  show ?thesis using returns reports by blast
qed

theorem LambdaRuleInvokeConfig_match_reports_witness:
  "\<exists>ms. LambdaRuleInvokeConfig_match sample = Inr ms
     \<and> (\<exists>m \<in> set ms. path m = [''Resources'', ''Schedule''])
     \<and> \<not> (\<exists>m \<in> set ms. path m = [''Resources'', ''Alarm''])"
proof -
  have configs: "\<forall>c \<in> snd ` set (get_resources sample [''AWS::Lambda::EventInvokeConfig'']).
       \<exists>d. on_failure c = Inr d \<and> (d \<noteq> PNone \<longrightarrow> (\<exists>ref. function_name_ref c = Inr ref))"
    unfolding sample_invoke_configs
    by (simp add: old_invoke_config_def on_failure_config_def on_failure_def function_name_ref_def)
  have rules: "\<forall>r \<in> snd ` set (get_resources sample [''AWS::Events::Rule'']).
         \<exists>ts. rule_targets r = Inr ts
           \<and> (\<forall>t \<in> set ts. \<exists>att. target_get_att t = Inr att
                  \<and> (att \<noteq> PNone \<longrightarrow> (\<exists>name. target_function t = Inr (PStr name))))"
    unfolding sample_rules
    by (simp add: rule_for_def rule_targets_def target_get_att_def target_function_def)
  from LambdaRuleInvokeConfig_match_reports [of sample] configs rules obtain ms
    where run: "LambdaRuleInvokeConfig_match sample = Inr ms" by blast
  with LambdaRuleInvokeConfig_match_reports [of sample]
  have iff: "(\<exists>m \<in> set ms. path m = [''Resources'', key]) \<longleftrightarrow>
            (\<exists>r ts t name. (key, r) \<in> set (get_resources sample [''AWS::Events::Rule''])
               \<and> rule_targets r = Inr ts \<and> t \<in> set ts
               \<and> target_function t = Inr (PStr name)
               \<and> name \<in> fst ` set (get_resources sample [''AWS::Lambda::Function''])
               \<and> \<not> (\<exists>c \<in> snd ` set (get_resources sample [''AWS::Lambda::EventInvokeConfig'']).
                      \<exists>d. on_failure c = Inr d \<and> d \<noteq> PNone
                        \<and> function_name_ref c = Inr (PStr name)))" for key
    by blast
  have "\<exists>m \<in> set ms. path m = [''Resources'', ''Schedule'']"
    unfolding iff [of "''Schedule''"] sample_rules sample_functions sample_invoke_configs
    by (simp add: rule_for_def rule_targets_def target_function_def old_invoke_config_def
          on_failure_config_def on_failure_def function_name_ref_def)
  moreover have "\<not> (\<exists>m \<in> set ms. path m = [''Resources'', ''Alarm''])"
    unfolding iff [of "''Alarm''"] sample_rules sample_functions sample_invoke_configs
    by (simp add: rule_for_def rule_targets_def target_function_def old_invoke_config_def
          on_failure_config_def on_failure_def function_name_ref_def)
  ultimately show ?thesis using run by blast
qed

text \<open>
  As the claim is written it fails where the Properties of an invoke configuration is a
  sequence: the rule \<open>Schedule\<close> targets the function \<open>New\<close>, no invoke configuration
  refers to it, and the rule raises instead of reporting \<open>Schedule\<close>.
\<close>

theorem LambdaRuleInvokeConfig_match_reports_fails:
  "(''Schedule'', rule_for ''New'') \<in> set (get_resources invoke_config_properties_list [''AWS::Events::Rule''])
   \<and> rule_targets (rule_for ''New'')
       = Inr [PDict [(''Arn'', PDict [(''Fn::GetAtt'', PList [PStr ''New'', PStr ''Arn''])]),
                     (''Id'', PStr ''target'')]]
   \<and> target_function (PDict [(''Arn'', PDict [(''Fn::GetAtt'', PList [PStr ''New'', PStr ''Arn''])]),
                             (''Id'', PStr ''target'')]) = Inr (PStr ''New'')
   \<and> ''New'' \<in> fst ` set (get_resources invoke_config_properties_list [''AWS::Lambda::Function''])
   \<and> on_failure (PDict [(''Type'', PStr ''AWS::Lambda::EventInvokeConfig''), (''Properties'', PList [])])
       = Inl AttributeError
   \<and> LambdaRuleInvokeConfig_match invoke_config_properties_list = Inl AttributeError"
  by (simp add: example_defs rule_defs)

text \<open>
  Claim C10. A target whose Arn is a plain ARN string is not skipped: the second
  \<^verbatim>\<open>get\<close> of \<^verbatim>\<open>target.get("Arn", {}).get("Fn::GetAtt", None)\<close> is called on the string and
  raises.
\<close>

theorem arn_string_target_raises:
  "target_get_att (PDict [(''Arn'', PStr ''arn:aws:sns:eu-west-1:1:alerts''), (''Id'', PStr ''topic'')])
     = Inl AttributeError
   \<and> LambdaRuleInvokeConfig_match rule_with_arn_string = Inl AttributeError"
  by (simp add: example_defs rule_defs)

section \<open>All rules\<close>

text \<open>
  Claim C8. Every violation of MandatoryParametersRule has the path \<open>["Parameters"]\<close>,
  and every violation that one of the other four rules returns has a path
  \<open>["Resources", key]\<close> where \<open>key\<close> is the logical ID of a resource of the template.
\<close>

theorem match_paths:
  "(\<forall>m \<in> set (fst (MandatoryParametersRule_match cfn h)). path m = [''Parameters''])
   \<and> (\<forall>ms. Python38Rule_match cfn = Inr ms \<longrightarrow>
         (\<forall>m \<in> set ms. \<exists>key \<in> fst ` set (Resources cfn). path m = [''Resources'', key]))
   \<and> (\<forall>ms. LambdaLogGroupRule_match cfn = Inr ms \<longrightarrow>
         (\<forall>m \<in> set ms. \<exists>key \<in> fst ` set (Resources cfn). path m = [''Resources'', key]))
   \<and> (\<forall>ms. LambdaESMDestinationConfig_match cfn = Inr ms \<longrightarrow>
         (\<forall>m \<in> set ms. \<exists>key \<in> fst ` set (Resources cfn). path m = [''Resources'', key]))
   \<and> (\<forall>ms. LambdaRuleInvokeConfig_match cfn = Inr ms \<longrightarrow>
         (\<forall>m \<in> set ms. \<exists>key \<in> fst ` set (Resources cfn). path m = [''Resources'', key]))"
proof -
  let ?Q = "\<lambda>p. \<exists>key \<in> fst ` set (Resources cfn). p = [''Resources'', key]"
  let ?P = "\<lambda>s. \<forall>m \<in> set s. ?Q (path m)"
  have mandatory: "\<forall>m \<in> set (fst (MandatoryParametersRule_match cfn h)). path m = [''Parameters'']"
    by (auto simp: MandatoryParametersRule_match_eq)
  have python38: "?P ms" if run: "Python38Rule_match cfn = Inr ms" for ms
  proof (rule for_each_invariant [OF run [unfolded Python38Rule_match_def], where P = ?P])
    show "?P []" by simp
  next
    fix kv s s'
    assume kv: "kv \<in> set (get_resources cfn [''AWS::Lambda::Function''])" and s: "?P s"
      and step: "python38_body kv s = Inr s'"
    show "?P s'"
      by (rule paths_step [OF s python38_body_step [OF step] resource_path [OF kv]])
  qed
  have log_group: "?P ms" if run: "LambdaLogGroupRule_match cfn = Inr ms" for ms
  proof -
    obtain known where second:
      "for_each (function_body known) (map fst (get_resources cfn [''AWS::Lambda::Function''])) [] = Inr ms"
      using run by (auto simp: LambdaLogGroupRule_match_def Let_def bind_err_Inr)
    show ?thesis
    proof (rule for_each_invariant [OF second, where P = ?P])
      show "?P []" by simp
    next
      fix f s s'
      assume f: "f \<in> set (map fst (get_resources cfn [''AWS::Lambda::Function'']))" and s: "?P s"
        and step: "function_body known f s = Inr s'"
      from f obtain kv where kv: "kv \<in> set (get_resources cfn [''AWS::Lambda::Function''])"
        and fk: "f = fst kv" by auto
      show "?P s'"
        by (rule paths_step [OF s function_body_step [OF step] resource_path [OF kv, folded fk]])
    qed
  qed
  have esm: "?P ms" if run: "LambdaESMDestinationConfig_match cfn = Inr ms" for ms
  proof (rule for_each_invariant
      [OF run [unfolded LambdaESMDestinationConfig_match_def Let_def], where P = ?P])
    show "?P []" by simp
  next
    fix kv s s'
    assume kv: "kv \<in> set (get_resources cfn [''AWS::Lambda::EventSourceMapping''])" and s: "?P s"
      and step: "esm_body kv s = Inr s'"
    show "?P s'"
      by (rule paths_step [OF s esm_body_step [OF step] resource_path [OF kv]])
  qed
  have invoke: "?P ms" if run: "LambdaRuleInvokeConfig_match cfn = Inr ms" for ms
  proof -
    obtain icf where second:
      "for_each (rule_body (map fst (get_resources cfn [''AWS::Lambda::Function''])) icf)
         (get_resources cfn [''AWS::Events::Rule'']) [] = Inr ms"
      using run by (auto simp: LambdaRuleInvokeConfig_match_def Let_def bind_err_Inr)
    show ?thesis
    proof (rule for_each_invariant [OF second, where P = ?P])
      show "?P []" by simp
    next
      fix kv s s'
      assume kv: "kv \<in> set (get_resources cfn [''AWS::Events::Rule''])" and s: "?P s"
        and step: "rule_body (map fst (get_resources cfn [''AWS::Lambda::Function''])) icf kv s = Inr s'"
      show "?P s'"
        by (rule rule_body_step [OF step s resource_path [OF kv]])
    qed
  qed
  show ?thesis using mandatory python38 log_group esm invoke by blast
qed

theorem match_paths_witness:
  "(\<exists>m. fst (MandatoryParametersRule_match sample initial_heap) = [m] \<and> path m = [''Parameters''])
   \<and> (\<exists>m. Python38Rule_match sample = Inr [m]
          \<and> (\<exists>key \<in> fst ` set (Resources sample). path m = [''Resources'', key]))
   \<and> (\<exists>m. LambdaLogGroupRule_match sample = Inr [m]
          \<and> (\<exists>key \<in> fst ` set (Resources sample). path m = [''Resources'', key]))
   \<and> (\<exists>m. LambdaESMDestinationConfig_match sample = Inr [m]
          \<and> (\<exists>key \<in> fst ` set (Resources sample). path m = [''Resources'', key]))
   \<and> (\<exists>m. LambdaRuleInvokeConfig_match sample = Inr [m]
          \<and> (\<exists>key \<in> fst ` set (Resources sample). path m = [''Resources'', key]))"
proof -
  have "\<exists>m. fst (MandatoryParametersRule_match sample initial_heap) = [m]"
    by (simp add: MandatoryParametersRule_match_eq sample_def initial_heap_def
          MandatoryParametersRule_mandatory_parameters_def)
  then show ?thesis
    using match_paths [of sample initial_heap]
      sample_python38 sample_log_group sample_esm sample_invoke_config
    by auto
qed

text \<open>
  Claim C2. Three lookups have no default. On a function without Properties,
  \<^verbatim>\<open>value.get("Properties")\<close> is None and the next \<^verbatim>\<open>get\<close> raises; on a log group without
  Properties, the membership test on None raises; on an invoke configuration whose
  FunctionName is a function name, the subscript \<^verbatim>\<open>["Ref"]\<close> raises.
\<close>

theorem unguarded_lookups_raise:
  "Python38Rule_match function_without_properties = Inl AttributeError
   \<and> LambdaLogGroupRule_match log_group_without_properties = Inl TypeError
   \<and> LambdaRuleInvokeConfig_match invoke_config_named_function = Inl TypeError"
  by (simp add: example_defs rule_defs)

end
